theory Spec2Isabelle
  imports Main
begin

section \<open>Data model\<close>

text \<open>
  The admin controllers of LearnHub (\<^verbatim>\<open>controllers/admin.controllers\<close>) are embedded as
  functions from the stored documents and the request to the response and the new stored
  documents. A document id is the string form of the store's \<^verbatim>\<open>_id\<close>.
\<close>

record Admin =
  admin_id :: string
  email :: string
  firstName :: string
  lastName :: string
  password :: string

record Course =
  course_id :: string
  title :: string
  description :: string
  price :: string
  imageURL :: string
  ownerName :: string
  createdBy :: string

text \<open>
  A value of a request body field, as far as the schemas tell them apart: the field is
  missing, it is a string, or it is a value of another type.
\<close>

datatype jsval = Undefined | Str string | NonString

text \<open>\<^verbatim>\<open>req.file\<close> as the upload middleware leaves it; \<^verbatim>\<open>path\<close> may be undefined.\<close>

record File =
  path :: "string option"

text \<open>
  The parts of the request the handlers read: \<^verbatim>\<open>req.admin\<close> as the authorization
  middleware left it, \<^verbatim>\<open>req.body\<close>, \<^verbatim>\<open>req.file\<close> and \<^verbatim>\<open>req.params.id\<close>.
\<close>

record request =
  req_admin :: "Admin option"
  req_body :: "string \<Rightarrow> jsval"
  req_file :: "File option"
  req_params_id :: "string option"

text \<open>One issue of a failed \<^verbatim>\<open>safeParse\<close>, with the path of the field.\<close>

datatype zod_issue = invalid_type string | invalid_email string | too_small string

text \<open>
  What a \<^verbatim>\<open>try\<close> block can throw: the \<^verbatim>\<open>TypeError\<close> of reading \<^verbatim>\<open>path\<close> of an undefined
  \<^verbatim>\<open>req.file\<close>, or the rejection of an awaited call (the upload, a lookup of the store, the
  password check) or the exception of a called utility, with its message.
\<close>

datatype thrown = TypeError_path_of_undefined | Rejected string

datatype error_value = Text string | ZodError "zod_issue list" | Message thrown

datatype data = AdminDoc Admin | CourseDoc Course | CourseDocs "Course list"

text \<open>
  The JSON sent: \<^verbatim>\<open>{error}\<close>, \<^verbatim>\<open>{message}\<close>, \<^verbatim>\<open>{message, data}\<close> or \<^verbatim>\<open>{message, user}\<close>.
\<close>

datatype json =
    ErrorBody error_value
  | MessageBody string
  | MessageData string data
  | MessageUser string Admin

datatype cookie_op = SetCookie string string bool | ClearCookie string

record response =
  status :: nat
  sent :: json
  cookie :: "cookie_op option"

text \<open>\<^verbatim>\<open>res.status(n).json(b)\<close>; \<^verbatim>\<open>res.json(b)\<close> alone answers with the default status 200.\<close>

definition res_status_json :: "nat \<Rightarrow> json \<Rightarrow> response" where
  "res_status_json n b = \<lparr>status = n, sent = b, cookie = None\<rparr>"

definition res_json :: "json \<Rightarrow> response" where
  "res_json b = res_status_json 200 b"

text \<open>The outcome of an awaited call to a collaborator.\<close>

datatype 'a awaited = Resolves 'a | Rejects string

text \<open>JavaScript's \<^verbatim>\<open>!v\<close> on a value that is a string, null or undefined.\<close>

definition falsy :: "string option \<Rightarrow> bool" where
  "falsy v = (case v of None \<Rightarrow> True | Some s \<Rightarrow> s = [])"

text \<open>The string that a value is once it is known to be truthy.\<close>

definition string_of :: "string option \<Rightarrow> string" where
  "string_of v = (case v of None \<Rightarrow> [] | Some s \<Rightarrow> s)"

section \<open>The schemas\<close>

text \<open>\<^verbatim>\<open>z.string()\<close> on one field of the body.\<close>

definition z_string :: "(string \<Rightarrow> jsval) \<Rightarrow> string \<Rightarrow> zod_issue list" where
  "z_string b k = (case b k of Str s \<Rightarrow> [] | _ \<Rightarrow> [invalid_type k])"

definition str_of :: "jsval \<Rightarrow> string" where
  "str_of v = (case v of Str s \<Rightarrow> s | _ \<Rightarrow> [])"

text \<open>
  \<^verbatim>\<open>courseSchema = z.object({title: z.string(), description: z.string(), price: z.string()})\<close>:
  all three fields are required strings and nothing else is checked.
\<close>

definition courseSchema_safeParse :: "(string \<Rightarrow> jsval) \<Rightarrow> zod_issue list + (string \<times> string \<times> string)" where
  "courseSchema_safeParse b =
     (let issues = z_string b ''title'' @ z_string b ''description'' @ z_string b ''price''
      in if issues = []
         then Inr (str_of (b ''title''), str_of (b ''description''), str_of (b ''price''))
         else Inl issues)"

section \<open>The course collection\<close>

text \<open>
  Modelled from the spec: the Course model (\<^verbatim>\<open>models/course.models\<close>) is not among the
  sources. Following the spec's Course Repository, the collection is the list of stored
  courses in creation order, keyed by id and queried by owner and by title and owner; a
  query compares the stored strings.
\<close>

definition Course_findOne :: "string \<Rightarrow> string \<Rightarrow> Course list \<Rightarrow> Course option" where
  "Course_findOne t owner cs = find (\<lambda>c. title c = t \<and> createdBy c = owner) cs"

definition Course_find :: "string \<Rightarrow> Course list \<Rightarrow> Course list" where
  "Course_find owner cs = filter (\<lambda>c. createdBy c = owner) cs"

definition Course_create :: "Course \<Rightarrow> Course list \<Rightarrow> Course \<times> Course list" where
  "Course_create c cs = (c, cs @ [c])"

text \<open>
  A lookup by a value of the request that a handler awaits inside its \<^verbatim>\<open>try\<close> block (the id
  of update and delete, the email of login) either rejects, with a message, or resolves to
  the answer computed from the stored documents. The store rejects an id that it cannot
  cast to the type of \<^verbatim>\<open>_id\<close>, or when it cannot be reached; which values it rejects is the
  parameter \<open>rejects\<close> of these handlers, giving the message.
\<close>

definition awaited_query :: "string option \<Rightarrow> 'a \<Rightarrow> 'a awaited" where
  "awaited_query fault answer = (case fault of Some m \<Rightarrow> Rejects m | None \<Rightarrow> Resolves answer)"

text \<open>The update document built by \<^verbatim>\<open>handleCourseUpdate\<close>: each field is optional.\<close>

record courseInputData =
  new_title :: "string option"
  new_price :: "string option"
  new_description :: "string option"

definition apply_update :: "courseInputData \<Rightarrow> Course \<Rightarrow> Course" where
  "apply_update u c =
     c\<lparr>title := (case new_title u of Some t \<Rightarrow> t | None \<Rightarrow> title c),
       price := (case new_price u of Some p \<Rightarrow> p | None \<Rightarrow> price c),
       description := (case new_description u of Some d \<Rightarrow> d | None \<Rightarrow> description c)\<rparr>"

text \<open>\<^verbatim>\<open>findByIdAndUpdate(id, update, {new: true})\<close>: the updated document, or null.\<close>

fun Course_findByIdAndUpdate :: "string \<Rightarrow> courseInputData \<Rightarrow> Course list \<Rightarrow> Course option \<times> Course list" where
  "Course_findByIdAndUpdate i u [] = (None, [])"
| "Course_findByIdAndUpdate i u (c # cs) =
     (if course_id c = i then (Some (apply_update u c), apply_update u c # cs)
      else (case Course_findByIdAndUpdate i u cs of (r, cs') \<Rightarrow> (r, c # cs')))"

text \<open>\<^verbatim>\<open>findByIdAndDelete(id)\<close>: the removed document, or null.\<close>

fun Course_findByIdAndDelete :: "string \<Rightarrow> Course list \<Rightarrow> Course option \<times> Course list" where
  "Course_findByIdAndDelete i [] = (None, [])"
| "Course_findByIdAndDelete i (c # cs) =
     (if course_id c = i then (Some c, cs)
      else (case Course_findByIdAndDelete i cs of (r, cs') \<Rightarrow> (r, c # cs')))"

section \<open>The course handlers\<close>

text \<open>
  \<^verbatim>\<open>handleCourseCreation\<close>. The upload collaborator \<^verbatim>\<open>uploadImage\<close> and the id the store
  gives the new document are parameters. The body of the \<^verbatim>\<open>try\<close> block returns what was
  thrown on the left; the \<^verbatim>\<open>catch\<close> answers with the message and no status of its own.
  \<^verbatim>\<open>Course.create\<close> resolves to the new document, so the check of its result never fires.
\<close>

definition handleCourseCreation_try ::
  "(string \<Rightarrow> string option awaited) \<Rightarrow> string \<Rightarrow> Course list \<Rightarrow> request
   \<Rightarrow> thrown + (response \<times> Course list)" where
  "handleCourseCreation_try uploadImage new_id cs req =
     (case req_admin req of
        None \<Rightarrow> Inr (res_status_json 401 (ErrorBody (Text ''User is unauthorized'')), cs)
      | Some a \<Rightarrow>
     (case courseSchema_safeParse (req_body req) of
        Inl issues \<Rightarrow> Inr (res_status_json 400 (ErrorBody (ZodError issues)), cs)
      | Inr (t, d, p) \<Rightarrow>
     if t = [] \<or> d = [] then
       Inr (res_status_json 400 (ErrorBody (Text ''Missing required fields'')), cs)
     else
     (case Course_findOne t (admin_id a) cs of
        Some courseExists \<Rightarrow>
          Inr (res_status_json 400 (ErrorBody (Text ''Course already exists'')), cs)
      | None \<Rightarrow>
     (case req_file req of
        None \<Rightarrow> Inl TypeError_path_of_undefined
      | Some f \<Rightarrow>
     if falsy (path f) then
       Inr (res_status_json 400 (ErrorBody (Text ''Image is required'')), cs)
     else
     (case uploadImage (string_of (path f)) of
        Rejects m \<Rightarrow> Inl (Rejected m)
      | Resolves url \<Rightarrow>
     if falsy url then
       Inr (res_status_json 500 (ErrorBody (Text ''Error in uploading image'')), cs)
     else
     (case Course_create
             \<lparr>course_id = new_id, title = t, description = d, price = p,
              imageURL = string_of url,
              ownerName = firstName a @ '' '' @ lastName a,
              createdBy = admin_id a\<rparr> cs of
        (course, cs') \<Rightarrow>
          Inr (res_status_json 201
                 (MessageData ''Course created successfully'' (CourseDoc course)), cs')))))))"

definition handleCourseCreation ::
  "(string \<Rightarrow> string option awaited) \<Rightarrow> string \<Rightarrow> Course list \<Rightarrow> request
   \<Rightarrow> response \<times> Course list" where
  "handleCourseCreation uploadImage new_id cs req =
     (case handleCourseCreation_try uploadImage new_id cs req of
        Inl error \<Rightarrow> (res_json (ErrorBody (Message error)), cs)
      | Inr r \<Rightarrow> r)"

text \<open>
  \<^verbatim>\<open>handleAdminCourseDisplay\<close>. \<^verbatim>\<open>Course.find\<close> resolves to an array, and an array is
  truthy also when it is empty, so the 404 branch never fires.
\<close>

definition handleAdminCourseDisplay :: "Course list \<Rightarrow> request \<Rightarrow> response \<times> Course list" where
  "handleAdminCourseDisplay cs req =
     (case req_admin req of
        None \<Rightarrow> (res_status_json 401 (ErrorBody (Text ''User is unauthorized'')), cs)
      | Some a \<Rightarrow>
          (res_status_json 200
             (MessageData ''Courses fetched successfully''
                (CourseDocs (Course_find (admin_id a) cs))), cs))"

text \<open>
  \<^verbatim>\<open>handleCourseUpdate\<close>: a field of the update document is set when the parsed string is
  truthy. A rejected lookup is thrown to the \<^verbatim>\<open>catch\<close>, which answers with the message and no
  status of its own.
\<close>

definition handleCourseUpdate_try ::
  "(string \<Rightarrow> string option) \<Rightarrow> Course list \<Rightarrow> request \<Rightarrow> thrown + (response \<times> Course list)" where
  "handleCourseUpdate_try rejects cs req =
     (case req_admin req of
        None \<Rightarrow> Inr (res_status_json 401 (ErrorBody (Text ''Unauthorized'')), cs)
      | Some a \<Rightarrow>
     if falsy (req_params_id req) then
       Inr (res_status_json 400 (ErrorBody (Text ''Missing required fields'')), cs)
     else
     (case courseSchema_safeParse (req_body req) of
        Inl issues \<Rightarrow> Inr (res_status_json 400 (ErrorBody (ZodError issues)), cs)
      | Inr (t, d, p) \<Rightarrow>
     (case awaited_query (rejects (string_of (req_params_id req)))
             (Course_findByIdAndUpdate
                (string_of (req_params_id req))
                \<lparr>new_title = (if t \<noteq> [] then Some t else None),
                 new_price = (if p \<noteq> [] then Some p else None),
                 new_description = (if d \<noteq> [] then Some d else None)\<rparr> cs) of
        Rejects m \<Rightarrow> Inl (Rejected m)
      | Resolves (None, cs') \<Rightarrow>
          Inr (res_status_json 500 (ErrorBody (Text ''Error in updating course'')), cs')
      | Resolves (Some updatedCourse, cs') \<Rightarrow>
          Inr (res_status_json 200
                 (MessageData ''Course updated successfully'' (CourseDoc updatedCourse)), cs'))))"

definition handleCourseUpdate ::
  "(string \<Rightarrow> string option) \<Rightarrow> Course list \<Rightarrow> request \<Rightarrow> response \<times> Course list" where
  "handleCourseUpdate rejects cs req =
     (case handleCourseUpdate_try rejects cs req of
        Inl error \<Rightarrow> (res_json (ErrorBody (Message error)), cs)
      | Inr r \<Rightarrow> r)"

text \<open>\<^verbatim>\<open>handleCourseDelete\<close>, with its \<^verbatim>\<open>catch\<close> as in the update.\<close>

definition handleCourseDelete_try ::
  "(string \<Rightarrow> string option) \<Rightarrow> Course list \<Rightarrow> request \<Rightarrow> thrown + (response \<times> Course list)" where
  "handleCourseDelete_try rejects cs req =
     (case req_admin req of
        None \<Rightarrow> Inr (res_status_json 401 (ErrorBody (Text ''Unauthorized'')), cs)
      | Some a \<Rightarrow>
     if falsy (req_params_id req) then
       Inr (res_status_json 403 (ErrorBody (Text ''Please provide CourseId'')), cs)
     else
     (case awaited_query (rejects (string_of (req_params_id req)))
             (Course_findByIdAndDelete (string_of (req_params_id req)) cs) of
        Rejects m \<Rightarrow> Inl (Rejected m)
      | Resolves (None, cs') \<Rightarrow>
          Inr (res_status_json 500 (ErrorBody (Text ''Error in deleting course'')), cs')
      | Resolves (Some deletedCourse, cs') \<Rightarrow>
          Inr (res_status_json 200 (MessageBody ''Course deleted successfully''), cs')))"

definition handleCourseDelete ::
  "(string \<Rightarrow> string option) \<Rightarrow> Course list \<Rightarrow> request \<Rightarrow> response \<times> Course list" where
  "handleCourseDelete rejects cs req =
     (case handleCourseDelete_try rejects cs req of
        Inl error \<Rightarrow> (res_json (ErrorBody (Message error)), cs)
      | Inr r \<Rightarrow> r)"

section \<open>The admin handlers\<close>

text \<open>
  \<^verbatim>\<open>z.string().email()\<close> and \<^verbatim>\<open>z.string().min(6)\<close> on one field of the body. The format
  check of the schema library is the parameter \<open>is_email\<close>.
\<close>

definition z_string_email :: "(string \<Rightarrow> bool) \<Rightarrow> (string \<Rightarrow> jsval) \<Rightarrow> string \<Rightarrow> zod_issue list" where
  "z_string_email is_email b k =
     (case b k of Str s \<Rightarrow> (if is_email s then [] else [invalid_email k]) | _ \<Rightarrow> [invalid_type k])"

definition z_string_min :: "nat \<Rightarrow> (string \<Rightarrow> jsval) \<Rightarrow> string \<Rightarrow> zod_issue list" where
  "z_string_min n b k =
     (case b k of Str s \<Rightarrow> (if n \<le> length s then [] else [too_small k]) | _ \<Rightarrow> [invalid_type k])"

definition userSchema_safeParse ::
  "(string \<Rightarrow> bool) \<Rightarrow> (string \<Rightarrow> jsval) \<Rightarrow> zod_issue list + (string \<times> string \<times> string \<times> string)" where
  "userSchema_safeParse is_email b =
     (let issues = z_string_email is_email b ''email'' @ z_string_min 6 b ''password''
                   @ z_string b ''firstName'' @ z_string b ''lastName''
      in if issues = []
         then Inr (str_of (b ''email''), str_of (b ''password''),
                   str_of (b ''firstName''), str_of (b ''lastName''))
         else Inl issues)"

definition loginSchema_safeParse ::
  "(string \<Rightarrow> bool) \<Rightarrow> (string \<Rightarrow> jsval) \<Rightarrow> zod_issue list + (string \<times> string)" where
  "loginSchema_safeParse is_email b =
     (let issues = z_string_email is_email b ''email'' @ z_string_min 6 b ''password''
      in if issues = []
         then Inr (str_of (b ''email''), str_of (b ''password''))
         else Inl issues)"

text \<open>
  Modelled from the spec: the Admin model (\<^verbatim>\<open>models/admin.models\<close>) is not among the
  sources. Following the spec's Credential Store, the collection is the list of stored
  admins, looked up by the exact email.
\<close>

definition Admin_findOne :: "string \<Rightarrow> Admin list \<Rightarrow> Admin option" where
  "Admin_findOne e as = find (\<lambda>a. email a = e) as"

definition Admin_create :: "Admin \<Rightarrow> Admin list \<Rightarrow> Admin \<times> Admin list" where
  "Admin_create a as = (a, as @ [a])"

text \<open>
  \<^verbatim>\<open>handleAdminRegister\<close>. The hashing utility \<^verbatim>\<open>hashPass\<close> and the id the store gives
  the new document are parameters. \<^verbatim>\<open>Admin.create\<close> resolves to the new document, so the
  check of its result never fires.
\<close>

definition handleAdminRegister ::
  "(string \<Rightarrow> bool) \<Rightarrow> (string \<Rightarrow> string option) \<Rightarrow> string \<Rightarrow> Admin list \<Rightarrow> request
   \<Rightarrow> response \<times> Admin list" where
  "handleAdminRegister is_email hashPass new_id as req =
     (case userSchema_safeParse is_email (req_body req) of
        Inl issues \<Rightarrow> (res_status_json 400 (ErrorBody (ZodError issues)), as)
      | Inr (e, pw, fn, ln) \<Rightarrow>
     if e = [] \<or> pw = [] \<or> fn = [] \<or> ln = [] then
       (res_status_json 400 (ErrorBody (Text ''Missing required fields'')), as)
     else
     (case Admin_findOne e as of
        Some userExists \<Rightarrow>
          (res_status_json 400 (ErrorBody (Text ''Admin already exists'')), as)
      | None \<Rightarrow>
     if falsy (hashPass pw) then
       (res_status_json 500 (ErrorBody (Text ''Error in pass hassing'')), as)
     else
     (case Admin_create
             \<lparr>admin_id = new_id, email = e, firstName = fn, lastName = ln,
              password = string_of (hashPass pw)\<rparr> as of
        (user, as') \<Rightarrow>
          (res_status_json 201 (MessageUser ''Admin created successfully'' user), as'))))"

text \<open>
  \<^verbatim>\<open>handleAdminLogin\<close>. The utilities \<^verbatim>\<open>verifyPass\<close> and \<^verbatim>\<open>signToken\<close> and the constant
  \<^verbatim>\<open>adminJwtSecret\<close> are parameters; \<^verbatim>\<open>verifyPass\<close> is awaited and may reject, \<^verbatim>\<open>signToken\<close> is
  called and may throw (its \<open>Rejects\<close>). Whatever is thrown inside the \<^verbatim>\<open>try\<close> block is
  answered by the \<^verbatim>\<open>catch\<close> with the message and no status of its own. The session cookie is
  set with \<^verbatim>\<open>httpOnly\<close>. Login stores nothing.
\<close>

definition handleAdminLogin_try ::
  "(string \<Rightarrow> bool) \<Rightarrow> (string \<Rightarrow> string option) \<Rightarrow> (string \<Rightarrow> string \<Rightarrow> bool awaited)
   \<Rightarrow> (Admin \<Rightarrow> string \<Rightarrow> string awaited) \<Rightarrow> string option \<Rightarrow> Admin list \<Rightarrow> request
   \<Rightarrow> thrown + response" where
  "handleAdminLogin_try is_email rejects verifyPass signToken adminJwtSecret as req =
     (case loginSchema_safeParse is_email (req_body req) of
        Inl issues \<Rightarrow> Inr (res_status_json 400 (ErrorBody (ZodError issues)))
      | Inr (e, pw) \<Rightarrow>
     if e = [] \<or> pw = [] then
       Inr (res_status_json 400 (ErrorBody (Text ''Missing required fields'')))
     else
     (case awaited_query (rejects e) (Admin_findOne e as) of
        Rejects m \<Rightarrow> Inl (Rejected m)
      | Resolves None \<Rightarrow> Inr (res_status_json 400 (ErrorBody (Text ''Admin doesnot exists'')))
      | Resolves (Some userExists) \<Rightarrow>
     (case verifyPass pw (password userExists) of
        Rejects m \<Rightarrow> Inl (Rejected m)
      | Resolves passCheck \<Rightarrow>
     if \<not> passCheck then
       Inr (res_status_json 404 (ErrorBody (Text ''Invalid password'')))
     else
     (case signToken userExists
             (if falsy adminJwtSecret then ''qazplm'' else string_of adminJwtSecret) of
        Rejects m \<Rightarrow> Inl (Rejected m)
      | Resolves token \<Rightarrow>
          Inr \<lparr>status = 200,
               sent = MessageData ''Admin logged in successfully'' (AdminDoc userExists),
               cookie = Some (SetCookie ''adminSessionId'' token True)\<rparr>))))"

definition handleAdminLogin ::
  "(string \<Rightarrow> bool) \<Rightarrow> (string \<Rightarrow> string option) \<Rightarrow> (string \<Rightarrow> string \<Rightarrow> bool awaited)
   \<Rightarrow> (Admin \<Rightarrow> string \<Rightarrow> string awaited) \<Rightarrow> string option \<Rightarrow> Admin list \<Rightarrow> request
   \<Rightarrow> response" where
  "handleAdminLogin is_email rejects verifyPass signToken adminJwtSecret as req =
     (case handleAdminLogin_try is_email rejects verifyPass signToken adminJwtSecret as req of
        Inl error \<Rightarrow> res_json (ErrorBody (Message error))
      | Inr r \<Rightarrow> r)"

text \<open>\<^verbatim>\<open>handleAdminLogout\<close>.\<close>

definition handleAdminLogout :: "request \<Rightarrow> response" where
  "handleAdminLogout req =
     (case req_admin req of
        None \<Rightarrow> res_status_json 400 (ErrorBody (Text ''Admin not found''))
      | Some a \<Rightarrow>
          \<lparr>status = 200, sent = MessageBody ''Admin logged out successfully'',
           cookie = Some (ClearCookie ''adminSessionId'')\<rparr>)"

section \<open>Sample data\<close>

text \<open>
  The inputs at which the theorems below are evaluated: a form body with the three course
  fields, bodies that lack fields, two admins and a course of each, an uploaded file, and simple stand-ins for the
  collaborators that the handlers take as parameters (an upload that succeeds, one that
  resolves to null and one that rejects; an email check, a hash, its verification and a
  token; a store that rejects the ids that are not 24 hexadecimal digits, and one that
  rejects nothing). The ids are written as the store generates them.
\<close>

definition form :: "string \<Rightarrow> string \<Rightarrow> string \<Rightarrow> string \<Rightarrow> jsval" where
  "form t d p k =
     (if k = ''title'' then Str t else if k = ''description'' then Str d
      else if k = ''price'' then Str p else Undefined)"

definition empty_body :: "string \<Rightarrow> jsval" where
  "empty_body k = Undefined"

definition price_only :: "string \<Rightarrow> string \<Rightarrow> jsval" where
  "price_only p k = (if k = ''price'' then Str p else Undefined)"

definition title_only :: "string \<Rightarrow> string \<Rightarrow> jsval" where
  "title_only t k = (if k = ''title'' then Str t else Undefined)"

definition jane :: Admin where
  "jane = \<lparr>admin_id = ''65e000000000000000000001'', email = ''a@x.com'', firstName = ''Jane'', lastName = ''Doe'',
           password = ''hash-of-secret1''\<rparr>"

definition omar :: Admin where
  "omar = \<lparr>admin_id = ''65e000000000000000000002'', email = ''o@x.com'', firstName = ''Omar'', lastName = ''Roe'',
           password = ''hash-of-secret2''\<rparr>"

definition intro :: Course where
  "intro = \<lparr>course_id = ''65f000000000000000000001'', title = ''Intro'', description = ''Basics'', price = ''10'',
            imageURL = ''https://img/1'', ownerName = ''Jane Doe'', createdBy = ''65e000000000000000000001''\<rparr>"

definition logic :: Course where
  "logic = \<lparr>course_id = ''65f000000000000000000002'', title = ''Logic'', description = ''Proofs'', price = ''20'',
            imageURL = ''https://img/2'', ownerName = ''Omar Roe'', createdBy = ''65e000000000000000000002''\<rparr>"

definition cdn :: "string \<Rightarrow> string option awaited" where
  "cdn p = Resolves (Some (''https://cdn/'' @ p))"

definition cdn_null :: "string \<Rightarrow> string option awaited" where
  "cdn_null p = Resolves None"

definition cdn_rejecting :: "string \<Rightarrow> string option awaited" where
  "cdn_rejecting p = Rejects ''upload timed out''"

definition cover :: File where
  "cover = \<lparr>path = Some ''uploads/cover.png''\<rparr>"

definition contains_at :: "string \<Rightarrow> bool" where
  "contains_at s = (CHR ''@'' \<in> set s)"

definition prefix_hash :: "string \<Rightarrow> string option" where
  "prefix_hash pw = Some (''hash-of-'' @ pw)"

definition prefix_verify :: "string \<Rightarrow> string \<Rightarrow> bool awaited" where
  "prefix_verify pw h = Resolves (h = ''hash-of-'' @ pw)"

definition plain_token :: "Admin \<Rightarrow> string \<Rightarrow> string awaited" where
  "plain_token a key = Resolves (admin_id a @ ''.'' @ key)"

definition object_id_cast :: "string \<Rightarrow> string option" where
  "object_id_cast i =
     (if length i = 24 \<and> list_all (\<lambda>ch. ch \<in> set ''0123456789abcdef'') i then None
      else Some ''Cast to ObjectId failed'')"

definition store_up :: "string \<Rightarrow> string option" where
  "store_up q = None"

definition credentials :: "string \<Rightarrow> string \<Rightarrow> string \<Rightarrow> string \<Rightarrow> string \<Rightarrow> jsval" where
  "credentials e pw fn ln k =
     (if k = ''email'' then Str e else if k = ''password'' then Str pw
      else if k = ''firstName'' then Str fn else if k = ''lastName'' then Str ln
      else Undefined)"

section \<open>Facts about the schema and the collection\<close>

lemma courseSchema_safeParse_strings:
  "b ''title'' = Str t \<Longrightarrow> b ''description'' = Str d \<Longrightarrow> b ''price'' = Str p
   \<Longrightarrow> courseSchema_safeParse b = Inr (t, d, p)"
  by (simp add: courseSchema_safeParse_def z_string_def str_of_def)

lemma courseSchema_safeParse_form: "courseSchema_safeParse (form t d p) = Inr (t, d, p)"
  by (rule courseSchema_safeParse_strings) (simp_all add: form_def)

lemma findByIdAndUpdate_absent:
  "\<forall>c \<in> set cs. course_id c \<noteq> i \<Longrightarrow> Course_findByIdAndUpdate i u cs = (None, cs)"
  by (induction cs) auto

lemma findByIdAndDelete_absent:
  "\<forall>c \<in> set cs. course_id c \<noteq> i \<Longrightarrow> Course_findByIdAndDelete i cs = (None, cs)"
  by (induction cs) auto

lemma findByIdAndUpdate_present:
  "\<forall>x \<in> set pre. course_id x \<noteq> i \<Longrightarrow> course_id c = i
   \<Longrightarrow> Course_findByIdAndUpdate i u (pre @ c # post)
       = (Some (apply_update u c), pre @ apply_update u c # post)"
  by (induction pre) auto

lemma findByIdAndDelete_present:
  "\<forall>x \<in> set pre. course_id x \<noteq> i \<Longrightarrow> course_id c = i
   \<Longrightarrow> Course_findByIdAndDelete i (pre @ c # post) = (Some c, pre @ post)"
  by (induction pre) auto

lemma first_with_id:
  "c \<in> set cs \<Longrightarrow> course_id c = i
   \<Longrightarrow> \<exists>pre c' post. cs = pre @ c' # post \<and> course_id c' = i \<and> (\<forall>x \<in> set pre. course_id x \<noteq> i)"
proof (induction cs)
  case Nil
  then show ?case by simp
next
  case (Cons x xs)
  show ?case
  proof (cases "course_id x = i")
    case True
    then have "x # xs = [] @ x # xs \<and> course_id x = i \<and> (\<forall>y \<in> set []. course_id y \<noteq> i)"
      by simp
    then show ?thesis by blast
  next
    case False
    with Cons.prems have "c \<in> set xs" by auto
    from Cons.IH [OF this Cons.prems(2)] obtain pre c' post where
      "xs = pre @ c' # post" "course_id c' = i" "\<forall>y \<in> set pre. course_id y \<noteq> i"
      by blast
    with False have "x # xs = (x # pre) @ c' # post \<and> course_id c' = i
        \<and> (\<forall>y \<in> set (x # pre). course_id y \<noteq> i)"
      by simp
    then show ?thesis by blast
  qed
qed

lemma creation_after_checks:
  assumes "req_admin req = Some a" and "courseSchema_safeParse (req_body req) = Inr (t, d, p)"
    and "t \<noteq> []" and "d \<noteq> []" and "Course_findOne t (admin_id a) cs = None"
  shows "handleCourseCreation_try uploadImage n cs req =
     (case req_file req of
        None \<Rightarrow> Inl TypeError_path_of_undefined
      | Some f \<Rightarrow>
     if falsy (path f) then
       Inr (res_status_json 400 (ErrorBody (Text ''Image is required'')), cs)
     else
     (case uploadImage (string_of (path f)) of
        Rejects m \<Rightarrow> Inl (Rejected m)
      | Resolves url \<Rightarrow>
     if falsy url then
       Inr (res_status_json 500 (ErrorBody (Text ''Error in uploading image'')), cs)
     else
       Inr (res_status_json 201
              (MessageData ''Course created successfully''
                 (CourseDoc \<lparr>course_id = n, title = t, description = d, price = p,
                    imageURL = string_of url, ownerName = firstName a @ '' '' @ lastName a,
                    createdBy = admin_id a\<rparr>)),
            cs @ [\<lparr>course_id = n, title = t, description = d, price = p,
                    imageURL = string_of url, ownerName = firstName a @ '' '' @ lastName a,
                    createdBy = admin_id a\<rparr>])))"
  using assms
  by (simp add: handleCourseCreation_try_def Course_create_def split: option.splits awaited.splits)

lemma Course_findOne_None_iff:
  "Course_findOne t owner cs = None \<longleftrightarrow> (\<forall>c \<in> set cs. title c \<noteq> t \<or> createdBy c \<noteq> owner)"
  by (auto simp add: Course_findOne_def find_None_iff)

lemma Course_findOne_append_new:
  "Course_findOne t owner cs = None \<Longrightarrow> title c = t \<Longrightarrow> createdBy c = owner
   \<Longrightarrow> Course_findOne t owner (cs @ [c]) = Some c"
  by (induction cs) (auto simp add: Course_findOne_def)

lemma Course_findOne_append_other:
  "Course_findOne t owner cs = None \<Longrightarrow> createdBy c \<noteq> owner
   \<Longrightarrow> Course_findOne t owner (cs @ [c]) = None"
  by (auto simp add: Course_findOne_None_iff)

lemma creation_stores_at_most_a_new_pair:
  "snd (handleCourseCreation uploadImage n cs req) = cs
   \<or> (\<exists>c. snd (handleCourseCreation uploadImage n cs req) = cs @ [c]
          \<and> Course_findOne (title c) (createdBy c) cs = None)"
  by (auto simp add: handleCourseCreation_def handleCourseCreation_try_def Course_create_def
      split: option.splits sum.splits awaited.splits prod.splits)

lemma creation_keeps_pairs_distinct:
  assumes "distinct (map (\<lambda>c. (title c, createdBy c)) cs)"
  shows "distinct (map (\<lambda>c. (title c, createdBy c))
           (snd (handleCourseCreation uploadImage n cs req)))"
proof -
  from creation_stores_at_most_a_new_pair [of uploadImage n cs req]
  show ?thesis
  proof
    assume "snd (handleCourseCreation uploadImage n cs req) = cs"
    with assms show ?thesis by simp
  next
    assume "\<exists>c. snd (handleCourseCreation uploadImage n cs req) = cs @ [c]
          \<and> Course_findOne (title c) (createdBy c) cs = None"
    then obtain c where c: "snd (handleCourseCreation uploadImage n cs req) = cs @ [c]"
      and new: "Course_findOne (title c) (createdBy c) cs = None"
      by blast
    from new have "(title c, createdBy c) \<notin> set (map (\<lambda>c. (title c, createdBy c)) cs)"
      by (auto simp add: Course_findOne_None_iff)
    with assms c show ?thesis by simp
  qed
qed

lemma creation_succeeds:
  assumes "req_admin req = Some a"
    and "req_body req ''title'' = Str t" and "req_body req ''description'' = Str d"
    and "req_body req ''price'' = Str p"
    and "t \<noteq> []" and "d \<noteq> []" and "Course_findOne t (admin_id a) cs = None"
    and "req_file req = Some f" and "\<not> falsy (path f)"
    and "uploadImage (string_of (path f)) = Resolves url" and "\<not> falsy url"
  shows "handleCourseCreation uploadImage n cs req
     = (res_status_json 201
          (MessageData ''Course created successfully''
             (CourseDoc \<lparr>course_id = n, title = t, description = d, price = p,
                imageURL = string_of url, ownerName = firstName a @ '' '' @ lastName a,
                createdBy = admin_id a\<rparr>)),
        cs @ [\<lparr>course_id = n, title = t, description = d, price = p,
                imageURL = string_of url, ownerName = firstName a @ '' '' @ lastName a,
                createdBy = admin_id a\<rparr>])"
proof -
  have parse: "courseSchema_safeParse (req_body req) = Inr (t, d, p)"
    using assms(2-4) by (rule courseSchema_safeParse_strings)
  note after = creation_after_checks [OF assms(1) parse assms(5-7), of uploadImage n]
  show ?thesis
    by (simp add: handleCourseCreation_def after assms(8-11))
qed

lemma creation_conflict:
  assumes "req_admin req = Some a"
    and "req_body req ''title'' = Str t" and "req_body req ''description'' = Str d"
    and "req_body req ''price'' = Str p"
    and "t \<noteq> []" and "d \<noteq> []" and "Course_findOne t (admin_id a) cs = Some c"
  shows "handleCourseCreation uploadImage n cs req
     = (res_status_json 400 (ErrorBody (Text ''Course already exists'')), cs)"
proof -
  have parse: "courseSchema_safeParse (req_body req) = Inr (t, d, p)"
    using assms(2-4) by (rule courseSchema_safeParse_strings)
  show ?thesis
    by (simp add: handleCourseCreation_def handleCourseCreation_try_def assms(1,5-7) parse)
qed

lemma userSchema_safeParse_strings:
  "b ''email'' = Str e \<Longrightarrow> is_email e \<Longrightarrow> b ''password'' = Str pw \<Longrightarrow> 6 \<le> length pw
   \<Longrightarrow> b ''firstName'' = Str fn \<Longrightarrow> b ''lastName'' = Str ln
   \<Longrightarrow> userSchema_safeParse is_email b = Inr (e, pw, fn, ln)"
  by (simp add: userSchema_safeParse_def z_string_email_def z_string_min_def z_string_def
      str_of_def)

lemma userSchema_safeParse_Inr:
  "userSchema_safeParse is_email b = Inr (e, pw, fn, ln)
   \<Longrightarrow> b ''email'' = Str e \<and> b ''password'' = Str pw \<and> 6 \<le> length pw"
  by (auto simp add: userSchema_safeParse_def z_string_email_def z_string_min_def z_string_def
      str_of_def Let_def split: jsval.splits if_splits)

lemma loginSchema_safeParse_Inr:
  "loginSchema_safeParse is_email b = Inr (e, pw)
   \<Longrightarrow> b ''email'' = Str e \<and> b ''password'' = Str pw"
  by (auto simp add: loginSchema_safeParse_def z_string_email_def z_string_min_def
      str_of_def Let_def split: jsval.splits if_splits)

lemma Admin_findOne_Some:
  "Admin_findOne e as = Some a \<Longrightarrow> a \<in> set as \<and> email a = e"
  by (auto simp add: Admin_findOne_def find_Some_iff)

lemma Admin_findOne_append_new:
  "Admin_findOne e as = None \<Longrightarrow> email a = e \<Longrightarrow> Admin_findOne e (as @ [a]) = Some a"
  by (induction as) (auto simp add: Admin_findOne_def)

lemma update_of_stored_course:
  assumes "\<forall>x \<in> set pre. course_id x \<noteq> i" and "course_id c = i" and "i \<noteq> []"
    and "rejects i = None"
    and "b ''title'' = Str t" and "b ''description'' = Str d" and "b ''price'' = Str p"
  shows "handleCourseUpdate rejects (pre @ c # post)
            \<lparr>req_admin = Some a, req_body = b, req_file = f, req_params_id = Some i\<rparr>
       = (res_status_json 200
            (MessageData ''Course updated successfully''
               (CourseDoc (c\<lparr>title := (if t = [] then title c else t),
                             price := (if p = [] then price c else p),
                             description := (if d = [] then description c else d)\<rparr>))),
          pre @ c\<lparr>title := (if t = [] then title c else t),
                   price := (if p = [] then price c else p),
                   description := (if d = [] then description c else d)\<rparr> # post)"
proof -
  have parse: "courseSchema_safeParse b = Inr (t, d, p)"
    using assms(5-7) by (rule courseSchema_safeParse_strings)
  have nf: "\<not> falsy (Some i)" "string_of (Some i) = i"
    using assms(3) by (simp_all add: falsy_def string_of_def)
  show ?thesis
    by (simp add: handleCourseUpdate_def handleCourseUpdate_try_def awaited_query_def parse nf
        assms(4) findByIdAndUpdate_present [OF assms(1,2)] apply_update_def)
qed

lemma delete_of_stored_course:
  assumes "\<forall>x \<in> set pre. course_id x \<noteq> i" and "course_id c = i" and "i \<noteq> []"
    and "rejects i = None"
  shows "handleCourseDelete rejects (pre @ c # post)
            \<lparr>req_admin = Some a, req_body = b, req_file = f, req_params_id = Some i\<rparr>
       = (res_status_json 200 (MessageBody ''Course deleted successfully''), pre @ post)"
proof -
  have nf: "\<not> falsy (Some i)" "string_of (Some i) = i"
    using assms(3) by (simp_all add: falsy_def string_of_def)
  show ?thesis
    by (simp add: handleCourseDelete_def handleCourseDelete_try_def awaited_query_def nf
        assms(4) findByIdAndDelete_present [OF assms(1,2)])
qed

lemma object_id_cast_samples:
  "object_id_cast ''65f000000000000000000001'' = None"
  "object_id_cast ''65f000000000000000000002'' = None"
  "object_id_cast ''65f000000000000000000009'' = None"
  "object_id_cast ''c9'' = Some ''Cast to ObjectId failed''"
  by (simp_all add: object_id_cast_def)

lemma creation_failed_upload:
  assumes "req_admin req = Some a"
    and "req_body req ''title'' = Str t" and "req_body req ''description'' = Str d"
    and "req_body req ''price'' = Str p"
    and "t \<noteq> []" and "d \<noteq> []" and "Course_findOne t (admin_id a) cs = None"
    and "req_file req = Some f" and "\<not> falsy (path f)"
  shows "(\<forall>url. uploadImage (string_of (path f)) = Resolves url \<and> falsy url \<longrightarrow>
            handleCourseCreation uploadImage n cs req
              = (res_status_json 500 (ErrorBody (Text ''Error in uploading image'')), cs))
       \<and> (\<forall>m. uploadImage (string_of (path f)) = Rejects m \<longrightarrow>
            handleCourseCreation uploadImage n cs req
              = (res_json (ErrorBody (Message (Rejected m))), cs))"
proof -
  have parse: "courseSchema_safeParse (req_body req) = Inr (t, d, p)"
    using assms(2-4) by (rule courseSchema_safeParse_strings)
  note after = creation_after_checks [OF assms(1) parse assms(5-7), of uploadImage n]
  show ?thesis
    by (simp add: handleCourseCreation_def after assms(8,9))
qed

section \<open>Listing\<close>

text \<open>
  C1. For every admin and every population of courses, the listing answers 200 with exactly
  the stored courses whose \<^verbatim>\<open>createdBy\<close> is the admin's id, in stored order, and stores
  nothing: no course of another owner is in the answer, and when the admin owns no course
  the answer is still the 200 success, with the empty list.
\<close>

theorem list_returns_exactly_own_courses:
  "handleAdminCourseDisplay cs (req\<lparr>req_admin := Some a\<rparr>)
     = (res_status_json 200
          (MessageData ''Courses fetched successfully''
             (CourseDocs (filter (\<lambda>c. createdBy c = admin_id a) cs))), cs)
   \<and> (\<forall>c \<in> set (filter (\<lambda>c. createdBy c = admin_id a) cs). createdBy c = admin_id a)
   \<and> set (filter (\<lambda>c. createdBy c = admin_id a) cs) = {c \<in> set cs. createdBy c = admin_id a}
   \<and> ((\<forall>c \<in> set cs. createdBy c \<noteq> admin_id a) \<longrightarrow>
        handleAdminCourseDisplay cs (req\<lparr>req_admin := Some a\<rparr>)
          = (res_status_json 200 (MessageData ''Courses fetched successfully'' (CourseDocs [])), cs))"
  by (auto simp add: handleAdminCourseDisplay_def Course_find_def filter_empty_conv)

theorem list_returns_exactly_own_courses_witness:
  "handleAdminCourseDisplay [intro, logic]
      \<lparr>req_admin = Some jane, req_body = empty_body, req_file = None, req_params_id = None\<rparr>
     = (res_status_json 200 (MessageData ''Courses fetched successfully'' (CourseDocs [intro])),
        [intro, logic])
   \<and> handleAdminCourseDisplay [logic]
      \<lparr>req_admin = Some jane, req_body = empty_body, req_file = None, req_params_id = None\<rparr>
     = (res_status_json 200 (MessageData ''Courses fetched successfully'' (CourseDocs [])),
        [logic])"
proof -
  let ?req = "\<lparr>req_admin = Some jane, req_body = empty_body, req_file = None, req_params_id = None\<rparr>"
  have own: "createdBy intro = admin_id jane" and other: "createdBy logic \<noteq> admin_id jane"
    by (simp_all add: jane_def intro_def logic_def)
  have req: "?req\<lparr>req_admin := Some jane\<rparr> = ?req" by simp
  from list_returns_exactly_own_courses [where cs = "[intro, logic]" and a = jane and req = ?req]
  have "handleAdminCourseDisplay [intro, logic] ?req
     = (res_status_json 200
          (MessageData ''Courses fetched successfully''
             (CourseDocs (filter (\<lambda>c. createdBy c = admin_id jane) [intro, logic]))), [intro, logic])"
    unfolding req by (rule conjunct1)
  moreover from list_returns_exactly_own_courses [where cs = "[logic]" and a = jane and req = ?req]
  have "handleAdminCourseDisplay [logic] ?req
     = (res_status_json 200
          (MessageData ''Courses fetched successfully''
             (CourseDocs (filter (\<lambda>c. createdBy c = admin_id jane) [logic]))), [logic])"
    unfolding req by (rule conjunct1)
  ultimately show ?thesis using own other by simp
qed

section \<open>Update and delete\<close>

text \<open>
  C3. For every acting admin and every id of a stored course that the store looks up,
  update and delete act on the stored course with that id and on nothing else, whoever
  owns it: delete answers 200 and removes that course, update (with a body that passes the
  schema) answers 200 with that course updated and stores it in its place. The course's
  \<^verbatim>\<open>createdBy\<close> is never compared with the acting admin's id, so the outcome is the same for
  an admin who does not own the course.
\<close>

theorem update_delete_resolve_by_id_only:
  assumes "\<forall>x \<in> set pre. course_id x \<noteq> i" and "course_id c = i" and "i \<noteq> []"
    and "rejects i = None"
  shows "(b ''title'' = Str t \<and> b ''description'' = Str d \<and> b ''price'' = Str p \<longrightarrow>
            handleCourseUpdate rejects (pre @ c # post)
              \<lparr>req_admin = Some a, req_body = b, req_file = f, req_params_id = Some i\<rparr>
            = (res_status_json 200
                 (MessageData ''Course updated successfully''
                    (CourseDoc (c\<lparr>title := (if t = [] then title c else t),
                                  price := (if p = [] then price c else p),
                                  description := (if d = [] then description c else d)\<rparr>))),
               pre @ c\<lparr>title := (if t = [] then title c else t),
                        price := (if p = [] then price c else p),
                        description := (if d = [] then description c else d)\<rparr> # post))
       \<and> handleCourseDelete rejects (pre @ c # post)
            \<lparr>req_admin = Some a, req_body = bd, req_file = fd, req_params_id = Some i\<rparr>
          = (res_status_json 200 (MessageBody ''Course deleted successfully''), pre @ post)"
proof (intro conjI impI)
  assume "b ''title'' = Str t \<and> b ''description'' = Str d \<and> b ''price'' = Str p"
  then have body: "b ''title'' = Str t" "b ''description'' = Str d" "b ''price'' = Str p"
    by simp_all
  show "handleCourseUpdate rejects (pre @ c # post)
          \<lparr>req_admin = Some a, req_body = b, req_file = f, req_params_id = Some i\<rparr>
        = (res_status_json 200
             (MessageData ''Course updated successfully''
                (CourseDoc (c\<lparr>title := (if t = [] then title c else t),
                              price := (if p = [] then price c else p),
                              description := (if d = [] then description c else d)\<rparr>))),
           pre @ c\<lparr>title := (if t = [] then title c else t),
                    price := (if p = [] then price c else p),
                    description := (if d = [] then description c else d)\<rparr> # post)"
    by (rule update_of_stored_course [where rejects = rejects and i = i, OF assms body])
next
  show "handleCourseDelete rejects (pre @ c # post)
          \<lparr>req_admin = Some a, req_body = bd, req_file = fd, req_params_id = Some i\<rparr>
        = (res_status_json 200 (MessageBody ''Course deleted successfully''), pre @ post)"
    by (rule delete_of_stored_course [where rejects = rejects and i = i, OF assms])
qed

theorem update_delete_resolve_by_id_only_witness:
  "createdBy logic \<noteq> admin_id jane
   \<and> handleCourseUpdate object_id_cast [intro, logic]
        \<lparr>req_admin = Some jane, req_body = form ''Sets'' [] ''25'', req_file = None,
         req_params_id = Some ''65f000000000000000000002''\<rparr>
     = (res_status_json 200
          (MessageData ''Course updated successfully''
             (CourseDoc (logic\<lparr>title := ''Sets'', price := ''25''\<rparr>))),
        [intro, logic\<lparr>title := ''Sets'', price := ''25''\<rparr>])
   \<and> handleCourseDelete object_id_cast [intro, logic]
        \<lparr>req_admin = Some jane, req_body = empty_body, req_file = None,
         req_params_id = Some ''65f000000000000000000002''\<rparr>
     = (res_status_json 200 (MessageBody ''Course deleted successfully''), [intro])"
proof -
  have h: "\<forall>x \<in> set [intro]. course_id x \<noteq> ''65f000000000000000000002''"
    "course_id logic = ''65f000000000000000000002''" "''65f000000000000000000002'' \<noteq> []"
    "object_id_cast ''65f000000000000000000002'' = None"
    by (simp_all add: intro_def logic_def object_id_cast_samples)
  have b: "form ''Sets'' [] ''25'' ''title'' = Str ''Sets''
      \<and> form ''Sets'' [] ''25'' ''description'' = Str []
      \<and> form ''Sets'' [] ''25'' ''price'' = Str ''25''"
    by (simp add: form_def)
  have other: "createdBy logic \<noteq> admin_id jane" by (simp add: logic_def jane_def)
  from update_delete_resolve_by_id_only [where rejects = object_id_cast
      and i = "''65f000000000000000000002''" and b = "form ''Sets'' [] ''25''" and t = "''Sets''"
      and d = "[]" and p = "''25''" and post = "[]" and a = jane and f = None
      and bd = empty_body and fd = None, OF h] b other
  show ?thesis by simp
qed

text \<open>
  C8, as stated, fails: for an id that matches no stored course the handlers never answer
  with the not-found status 404 of the error taxonomy. When the lookup resolves to null
  they answer 500, with ``Error in updating course'' and ``Error in deleting course''; when
  the store rejects the id, the \<^verbatim>\<open>catch\<close> answers with the store's message under the default
  status 200.
\<close>

theorem update_delete_unknown_id_counterexample:
  "handleCourseUpdate object_id_cast [intro]
      \<lparr>req_admin = Some jane, req_body = form ''Sets'' ''Proofs'' ''25'', req_file = None,
       req_params_id = Some ''65f000000000000000000009''\<rparr>
     = (\<lparr>status = 500, sent = ErrorBody (Text ''Error in updating course''), cookie = None\<rparr>, [intro])
   \<and> handleCourseDelete object_id_cast [intro]
      \<lparr>req_admin = Some jane, req_body = empty_body, req_file = None,
       req_params_id = Some ''65f000000000000000000009''\<rparr>
     = (\<lparr>status = 500, sent = ErrorBody (Text ''Error in deleting course''), cookie = None\<rparr>, [intro])
   \<and> handleCourseDelete object_id_cast [intro]
      \<lparr>req_admin = Some jane, req_body = empty_body, req_file = None,
       req_params_id = Some ''c9''\<rparr>
     = (\<lparr>status = 200, sent = ErrorBody (Message (Rejected ''Cast to ObjectId failed'')),
         cookie = None\<rparr>, [intro])
   \<and> status (fst (handleCourseUpdate object_id_cast [intro]
      \<lparr>req_admin = Some jane, req_body = form ''Sets'' ''Proofs'' ''25'', req_file = None,
       req_params_id = Some ''65f000000000000000000009''\<rparr>)) \<noteq> 404
   \<and> status (fst (handleCourseDelete object_id_cast [intro]
      \<lparr>req_admin = Some jane, req_body = empty_body, req_file = None,
       req_params_id = Some ''65f000000000000000000009''\<rparr>)) \<noteq> 404
   \<and> status (fst (handleCourseDelete object_id_cast [intro]
      \<lparr>req_admin = Some jane, req_body = empty_body, req_file = None,
       req_params_id = Some ''c9''\<rparr>)) \<noteq> 404"
  by (simp add: handleCourseUpdate_def handleCourseUpdate_try_def handleCourseDelete_def
      handleCourseDelete_try_def awaited_query_def object_id_cast_samples
      courseSchema_safeParse_form falsy_def string_of_def intro_def res_status_json_def
      res_json_def)

text \<open>
  C8, amended. For every non-empty id that matches no stored course and that the store
  looks up (the lookup resolves, to null), delete answers 500 ``Error in deleting course''
  and update answers 500 ``Error in updating course'' when its body passes the schema; an
  update whose body does not pass the schema is answered 400 with the schema's issues. For
  every non-empty id that matches no stored course, looked up or rejected, the stored
  courses are exactly what they were.
\<close>

theorem update_delete_unknown_id:
  assumes "\<forall>c \<in> set cs. course_id c \<noteq> i" and "i \<noteq> []"
    and "req_admin req = Some a" and "req_params_id req = Some i"
  shows "(rejects i = None \<longrightarrow>
            handleCourseDelete rejects cs req
              = (res_status_json 500 (ErrorBody (Text ''Error in deleting course'')), cs))
       \<and> (\<forall>t d p. rejects i = None \<and> courseSchema_safeParse (req_body req) = Inr (t, d, p) \<longrightarrow>
            handleCourseUpdate rejects cs req
              = (res_status_json 500 (ErrorBody (Text ''Error in updating course'')), cs))
       \<and> (\<forall>issues. courseSchema_safeParse (req_body req) = Inl issues \<longrightarrow>
            handleCourseUpdate rejects cs req
              = (res_status_json 400 (ErrorBody (ZodError issues)), cs))
       \<and> snd (handleCourseUpdate rejects cs req) = cs
       \<and> snd (handleCourseDelete rejects cs req) = cs"
proof -
  have nf: "\<not> falsy (Some i)" "string_of (Some i) = i"
    using assms(2) by (simp_all add: falsy_def string_of_def)
  note absent_upd = findByIdAndUpdate_absent [OF assms(1)]
  note absent_del = findByIdAndDelete_absent [OF assms(1)]
  have del: "handleCourseDelete rejects cs req
      = (res_status_json 500 (ErrorBody (Text ''Error in deleting course'')), cs)"
    if "rejects i = None"
    by (simp add: handleCourseDelete_def handleCourseDelete_try_def awaited_query_def
        assms(3,4) nf that absent_del)
  have del_store: "snd (handleCourseDelete rejects cs req) = cs"
    by (simp add: handleCourseDelete_def handleCourseDelete_try_def awaited_query_def
        assms(3,4) nf absent_del split: option.splits)
  have upd_ok: "handleCourseUpdate rejects cs req
      = (res_status_json 500 (ErrorBody (Text ''Error in updating course'')), cs)"
    if "rejects i = None \<and> courseSchema_safeParse (req_body req) = Inr (t, d, p)" for t d p
    using that
    by (simp add: handleCourseUpdate_def handleCourseUpdate_try_def awaited_query_def
        assms(3,4) nf absent_upd)
  have upd_bad: "handleCourseUpdate rejects cs req
      = (res_status_json 400 (ErrorBody (ZodError issues)), cs)"
    if "courseSchema_safeParse (req_body req) = Inl issues" for issues
    by (simp add: handleCourseUpdate_def handleCourseUpdate_try_def assms(3,4) nf that)
  have upd_store: "snd (handleCourseUpdate rejects cs req) = cs"
  proof (cases "courseSchema_safeParse (req_body req)")
    case (Inl issues)
    then show ?thesis by (simp add: upd_bad)
  next
    case (Inr x)
    obtain t d p where "x = (t, d, p)" by (cases x) auto
    with Inr show ?thesis
      by (simp add: handleCourseUpdate_def handleCourseUpdate_try_def awaited_query_def
          assms(3,4) nf absent_upd split: option.splits)
  qed
  from del upd_ok upd_bad upd_store del_store show ?thesis by blast
qed

theorem update_delete_unknown_id_witness:
  "handleCourseDelete object_id_cast [intro]
      \<lparr>req_admin = Some jane, req_body = form ''Sets'' ''Proofs'' ''25'', req_file = None,
       req_params_id = Some ''65f000000000000000000009''\<rparr>
     = (res_status_json 500 (ErrorBody (Text ''Error in deleting course'')), [intro])
   \<and> handleCourseUpdate object_id_cast [intro]
      \<lparr>req_admin = Some jane, req_body = form ''Sets'' ''Proofs'' ''25'', req_file = None,
       req_params_id = Some ''65f000000000000000000009''\<rparr>
     = (res_status_json 500 (ErrorBody (Text ''Error in updating course'')), [intro])
   \<and> snd (handleCourseDelete object_id_cast [intro]
      \<lparr>req_admin = Some jane, req_body = empty_body, req_file = None,
       req_params_id = Some ''c9''\<rparr>) = [intro]"
proof -
  let ?req = "\<lparr>req_admin = Some jane, req_body = form ''Sets'' ''Proofs'' ''25'', req_file = None,
       req_params_id = Some ''65f000000000000000000009''\<rparr>"
  let ?bad = "\<lparr>req_admin = Some jane, req_body = empty_body, req_file = None,
       req_params_id = Some ''c9''\<rparr>"
  have h: "\<forall>c \<in> set [intro]. course_id c \<noteq> ''65f000000000000000000009''"
    "''65f000000000000000000009'' \<noteq> []"
    "req_admin ?req = Some jane" "req_params_id ?req = Some ''65f000000000000000000009''"
    by (simp_all add: intro_def)
  have g: "\<forall>c \<in> set [intro]. course_id c \<noteq> ''c9''" "''c9'' \<noteq> []"
    "req_admin ?bad = Some jane" "req_params_id ?bad = Some ''c9''"
    by (simp_all add: intro_def)
  from update_delete_unknown_id [OF h, of object_id_cast]
       update_delete_unknown_id [OF g, of object_id_cast]
  show ?thesis by (simp add: courseSchema_safeParse_form object_id_cast_samples)
qed

text \<open>
  C5, as stated, fails: a title supplied as the empty string is not applied, the stored
  title stays what it was; and a body with the price alone does not pass the schema, so the
  update is answered with 400 and the price is not changed either.
\<close>

theorem update_empty_string_counterexample:
  "handleCourseUpdate object_id_cast [intro]
      \<lparr>req_admin = Some jane, req_body = form [] ''Basics'' ''49.99'', req_file = None,
       req_params_id = Some ''65f000000000000000000001''\<rparr>
     = (res_status_json 200
          (MessageData ''Course updated successfully'' (CourseDoc (intro\<lparr>price := ''49.99''\<rparr>))),
        [intro\<lparr>price := ''49.99''\<rparr>])
   \<and> title (intro\<lparr>price := ''49.99''\<rparr>) = ''Intro''
   \<and> handleCourseUpdate object_id_cast [intro]
      \<lparr>req_admin = Some jane, req_body = price_only ''49.99'',
       req_file = None, req_params_id = Some ''65f000000000000000000001''\<rparr>
     = (res_status_json 400
          (ErrorBody (ZodError [invalid_type ''title'', invalid_type ''description''])),
        [intro])
   \<and> price intro = ''10''"
proof -
  have "handleCourseUpdate object_id_cast [intro]
      \<lparr>req_admin = Some jane, req_body = form [] ''Basics'' ''49.99'', req_file = None,
       req_params_id = Some ''65f000000000000000000001''\<rparr>
     = (res_status_json 200
          (MessageData ''Course updated successfully'' (CourseDoc (intro\<lparr>price := ''49.99''\<rparr>))),
        [intro\<lparr>price := ''49.99''\<rparr>])"
    by (simp add: handleCourseUpdate_def handleCourseUpdate_try_def awaited_query_def
        object_id_cast_samples courseSchema_safeParse_form falsy_def string_of_def
        apply_update_def intro_def)
  moreover have "handleCourseUpdate object_id_cast [intro]
      \<lparr>req_admin = Some jane, req_body = price_only ''49.99'',
       req_file = None, req_params_id = Some ''65f000000000000000000001''\<rparr>
     = (res_status_json 400
          (ErrorBody (ZodError [invalid_type ''title'', invalid_type ''description''])),
        [intro])"
    by (simp add: handleCourseUpdate_def handleCourseUpdate_try_def courseSchema_safeParse_def
        z_string_def falsy_def price_only_def)
  ultimately show ?thesis by (simp add: intro_def)
qed

text \<open>
  C5, amended. For every update of a stored course with a body that passes the schema
  (title, description and price are all strings), exactly the fields supplied as non-empty
  strings take the supplied values: a field supplied as the empty string keeps its prior
  value, as do the id, the image URL, the owner name and \<^verbatim>\<open>createdBy\<close> and every other
  stored course. The answer is 200 with the updated course. The id is one that the store
  looks up, as the id of a stored course is.
\<close>

theorem update_changes_nonempty_fields_only:
  assumes "\<forall>x \<in> set pre. course_id x \<noteq> i" and "course_id c = i" and "i \<noteq> []"
    and "rejects i = None"
    and "b ''title'' = Str t" and "b ''description'' = Str d" and "b ''price'' = Str p"
  shows "handleCourseUpdate rejects (pre @ c # post)
            \<lparr>req_admin = Some a, req_body = b, req_file = f, req_params_id = Some i\<rparr>
       = (res_status_json 200
            (MessageData ''Course updated successfully''
               (CourseDoc (c\<lparr>title := (if t = [] then title c else t),
                             price := (if p = [] then price c else p),
                             description := (if d = [] then description c else d)\<rparr>))),
          pre @ c\<lparr>title := (if t = [] then title c else t),
                   price := (if p = [] then price c else p),
                   description := (if d = [] then description c else d)\<rparr> # post)"
  by (rule update_of_stored_course [where rejects = rejects and i = i, OF assms])

theorem update_changes_nonempty_fields_only_witness:
  "handleCourseUpdate object_id_cast [logic, intro]
      \<lparr>req_admin = Some jane, req_body = form [] [] ''49.99'', req_file = None,
       req_params_id = Some ''65f000000000000000000001''\<rparr>
     = (res_status_json 200
          (MessageData ''Course updated successfully'' (CourseDoc (intro\<lparr>price := ''49.99''\<rparr>))),
        [logic, intro\<lparr>price := ''49.99''\<rparr>])"
proof -
  have h: "\<forall>x \<in> set [logic]. course_id x \<noteq> ''65f000000000000000000001''"
    "course_id intro = ''65f000000000000000000001''" "''65f000000000000000000001'' \<noteq> []"
    "object_id_cast ''65f000000000000000000001'' = None"
    "form [] [] ''49.99'' ''title'' = Str []" "form [] [] ''49.99'' ''description'' = Str []"
    "form [] [] ''49.99'' ''price'' = Str ''49.99''"
    by (simp_all add: logic_def intro_def form_def object_id_cast_samples)
  from update_changes_nonempty_fields_only [where rejects = object_id_cast
      and i = "''65f000000000000000000001''" and post = "[]" and a = jane and f = None, OF h]
  show ?thesis by simp
qed

section \<open>Creation\<close>

text \<open>
  C6. A create call that passes the earlier checks and carries no uploaded file
  (\<^verbatim>\<open>req.file\<close> is undefined) does not reach the ``Image is required'' answer: reading
  \<^verbatim>\<open>req.file.path\<close> throws, and the \<^verbatim>\<open>catch\<close> answers with the exception's message under the
  default status 200. No course is stored. The 400 ``Image is required'' is given only when
  \<^verbatim>\<open>req.file\<close> is there and its path is not.
\<close>

theorem create_without_file_throws:
  "handleCourseCreation cdn ''65f000000000000000000003'' [intro]
      \<lparr>req_admin = Some jane, req_body = form ''Sets'' ''Proofs'' ''25'', req_file = None,
       req_params_id = None\<rparr>
     = (\<lparr>status = 200, sent = ErrorBody (Message TypeError_path_of_undefined), cookie = None\<rparr>,
        [intro])
   \<and> handleCourseCreation cdn ''65f000000000000000000003'' [intro]
      \<lparr>req_admin = Some jane, req_body = form ''Sets'' ''Proofs'' ''25'',
       req_file = Some \<lparr>path = None\<rparr>, req_params_id = None\<rparr>
     = (\<lparr>status = 400, sent = ErrorBody (Text ''Image is required''), cookie = None\<rparr>, [intro])"
proof -
  let ?r1 = "\<lparr>req_admin = Some jane, req_body = form ''Sets'' ''Proofs'' ''25'', req_file = None,
       req_params_id = None\<rparr>"
  let ?r2 = "\<lparr>req_admin = Some jane, req_body = form ''Sets'' ''Proofs'' ''25'',
       req_file = Some \<lparr>path = None\<rparr>, req_params_id = None\<rparr>"
  have nodup: "Course_findOne ''Sets'' (admin_id jane) [intro] = None"
    by (simp add: Course_findOne_def intro_def jane_def)
  have "handleCourseCreation_try cdn ''65f000000000000000000003'' [intro] ?r1 = Inl TypeError_path_of_undefined"
    using creation_after_checks [where req = ?r1 and a = jane and t = "''Sets''"
        and d = "''Proofs''" and p = "''25''" and cs = "[intro]" and uploadImage = cdn
        and n = "''65f000000000000000000003''"] nodup
    by (simp add: courseSchema_safeParse_form)
  moreover have "handleCourseCreation_try cdn ''65f000000000000000000003'' [intro] ?r2
      = Inr (res_status_json 400 (ErrorBody (Text ''Image is required'')), [intro])"
    using creation_after_checks [where req = ?r2 and a = jane and t = "''Sets''"
        and d = "''Proofs''" and p = "''25''" and cs = "[intro]" and uploadImage = cdn
        and n = "''65f000000000000000000003''"] nodup
    by (simp add: courseSchema_safeParse_form falsy_def)
  ultimately show ?thesis
    by (simp add: handleCourseCreation_def res_json_def res_status_json_def)
qed

text \<open>
  C2. A create call that reaches the upload and whose upload rejects is not answered as a
  failed upload: the rejection is thrown to the \<^verbatim>\<open>catch\<close>, which answers with the
  collaborator's message under the default status 200. The guard next to it answers an
  upload that resolves to no URL with 500 ``Error in uploading image''. In both cases no
  course is stored.
\<close>

theorem create_rejected_upload_answers_200:
  "handleCourseCreation cdn_rejecting ''65f000000000000000000003'' [intro]
      \<lparr>req_admin = Some jane, req_body = form ''Sets'' ''Proofs'' ''25'', req_file = Some cover,
       req_params_id = None\<rparr>
     = (\<lparr>status = 200, sent = ErrorBody (Message (Rejected ''upload timed out'')),
         cookie = None\<rparr>, [intro])
   \<and> handleCourseCreation cdn_null ''65f000000000000000000003'' [intro]
      \<lparr>req_admin = Some jane, req_body = form ''Sets'' ''Proofs'' ''25'', req_file = Some cover,
       req_params_id = None\<rparr>
     = (\<lparr>status = 500, sent = ErrorBody (Text ''Error in uploading image''), cookie = None\<rparr>,
        [intro])"
proof -
  let ?req = "\<lparr>req_admin = Some jane, req_body = form ''Sets'' ''Proofs'' ''25'',
      req_file = Some cover, req_params_id = None\<rparr>"
  have h: "req_admin ?req = Some jane" "req_body ?req ''title'' = Str ''Sets''"
    "req_body ?req ''description'' = Str ''Proofs''" "req_body ?req ''price'' = Str ''25''"
    "''Sets'' \<noteq> []" "''Proofs'' \<noteq> []" "Course_findOne ''Sets'' (admin_id jane) [intro] = None"
    "req_file ?req = Some cover" "\<not> falsy (path cover)"
    by (simp_all add: form_def Course_findOne_def intro_def jane_def cover_def falsy_def)
  from creation_failed_upload [OF h, of cdn_null "''65f000000000000000000003''"]
       creation_failed_upload [OF h, of cdn_rejecting "''65f000000000000000000003''"]
  show ?thesis
    by (simp add: cdn_null_def cdn_rejecting_def falsy_def res_json_def res_status_json_def)
qed

text \<open>
  C4. When an admin creates a course with a title they do not have yet, the call answers
  201 and stores the course; a second create with the same title by the same admin answers
  400 ``Course already exists'' and stores nothing; a create with that title by an admin with
  another id, who does not have the title yet, answers 201. Creation keeps the pairs of
  title and \<^verbatim>\<open>createdBy\<close> of the stored courses distinct.
\<close>

theorem duplicate_title_per_owner:
  assumes "req_admin r1 = Some a"
    and "req_body r1 ''title'' = Str t" and "req_body r1 ''description'' = Str d1"
    and "req_body r1 ''price'' = Str p1"
    and "t \<noteq> []" and "d1 \<noteq> []" and "Course_findOne t (admin_id a) cs = None"
    and "req_file r1 = Some f1" and "\<not> falsy (path f1)"
    and "uploadImage (string_of (path f1)) = Resolves url1" and "\<not> falsy url1"
    and "req_admin r2 = Some a2" and "admin_id a2 = admin_id a"
    and "req_body r2 ''title'' = Str t" and "req_body r2 ''description'' = Str d2"
    and "req_body r2 ''price'' = Str p2" and "d2 \<noteq> []"
    and "req_admin r3 = Some b" and "admin_id b \<noteq> admin_id a"
    and "req_body r3 ''title'' = Str t" and "req_body r3 ''description'' = Str d3"
    and "req_body r3 ''price'' = Str p3" and "d3 \<noteq> []"
    and "Course_findOne t (admin_id b) cs = None"
    and "req_file r3 = Some f3" and "\<not> falsy (path f3)"
    and "uploadImage (string_of (path f3)) = Resolves url3" and "\<not> falsy url3"
  shows "handleCourseCreation uploadImage n1 cs r1
           = (res_status_json 201
                (MessageData ''Course created successfully''
                   (CourseDoc \<lparr>course_id = n1, title = t, description = d1, price = p1,
                      imageURL = string_of url1, ownerName = firstName a @ '' '' @ lastName a,
                      createdBy = admin_id a\<rparr>)),
              cs @ [\<lparr>course_id = n1, title = t, description = d1, price = p1,
                      imageURL = string_of url1, ownerName = firstName a @ '' '' @ lastName a,
                      createdBy = admin_id a\<rparr>])
       \<and> handleCourseCreation uploadImage n2
            (cs @ [\<lparr>course_id = n1, title = t, description = d1, price = p1,
                      imageURL = string_of url1, ownerName = firstName a @ '' '' @ lastName a,
                      createdBy = admin_id a\<rparr>]) r2
           = (res_status_json 400 (ErrorBody (Text ''Course already exists'')),
              cs @ [\<lparr>course_id = n1, title = t, description = d1, price = p1,
                      imageURL = string_of url1, ownerName = firstName a @ '' '' @ lastName a,
                      createdBy = admin_id a\<rparr>])
       \<and> handleCourseCreation uploadImage n3
            (cs @ [\<lparr>course_id = n1, title = t, description = d1, price = p1,
                      imageURL = string_of url1, ownerName = firstName a @ '' '' @ lastName a,
                      createdBy = admin_id a\<rparr>]) r3
           = (res_status_json 201
                (MessageData ''Course created successfully''
                   (CourseDoc \<lparr>course_id = n3, title = t, description = d3, price = p3,
                      imageURL = string_of url3, ownerName = firstName b @ '' '' @ lastName b,
                      createdBy = admin_id b\<rparr>)),
              cs @ [\<lparr>course_id = n1, title = t, description = d1, price = p1,
                      imageURL = string_of url1, ownerName = firstName a @ '' '' @ lastName a,
                      createdBy = admin_id a\<rparr>,
                    \<lparr>course_id = n3, title = t, description = d3, price = p3,
                      imageURL = string_of url3, ownerName = firstName b @ '' '' @ lastName b,
                      createdBy = admin_id b\<rparr>])
       \<and> (distinct (map (\<lambda>c. (title c, createdBy c)) cs) \<longrightarrow>
            distinct (map (\<lambda>c. (title c, createdBy c))
              (cs @ [\<lparr>course_id = n1, title = t, description = d1, price = p1,
                      imageURL = string_of url1, ownerName = firstName a @ '' '' @ lastName a,
                      createdBy = admin_id a\<rparr>,
                    \<lparr>course_id = n3, title = t, description = d3, price = p3,
                      imageURL = string_of url3, ownerName = firstName b @ '' '' @ lastName b,
                      createdBy = admin_id b\<rparr>])))"
proof -
  let ?c1 = "\<lparr>course_id = n1, title = t, description = d1, price = p1,
      imageURL = string_of url1, ownerName = firstName a @ '' '' @ lastName a,
      createdBy = admin_id a\<rparr>"
  let ?c3 = "\<lparr>course_id = n3, title = t, description = d3, price = p3,
      imageURL = string_of url3, ownerName = firstName b @ '' '' @ lastName b,
      createdBy = admin_id b\<rparr>"
  have first: "handleCourseCreation uploadImage n1 cs r1
      = (res_status_json 201 (MessageData ''Course created successfully'' (CourseDoc ?c1)),
         cs @ [?c1])"
    using assms(1-11) by (rule creation_succeeds)
  have "Course_findOne t (admin_id a2) (cs @ [?c1]) = Some ?c1"
    using assms(7,13) by (simp add: Course_findOne_append_new)
  with assms(12,14-16,5,17)
  have second: "handleCourseCreation uploadImage n2 (cs @ [?c1]) r2
      = (res_status_json 400 (ErrorBody (Text ''Course already exists'')), cs @ [?c1])"
    by (rule creation_conflict)
  have free: "Course_findOne t (admin_id b) (cs @ [?c1]) = None"
    using assms(24,19) by (simp add: Course_findOne_append_other)
  have third: "handleCourseCreation uploadImage n3 (cs @ [?c1]) r3
      = (res_status_json 201 (MessageData ''Course created successfully'' (CourseDoc ?c3)),
         cs @ [?c1, ?c3])"
    using creation_succeeds [where uploadImage = uploadImage and n = n3,
        OF assms(18,20-22) assms(5) assms(23) free assms(25-28)]
    by simp
  have inv: "distinct (map (\<lambda>c. (title c, createdBy c)) (cs @ [?c1, ?c3]))"
    if "distinct (map (\<lambda>c. (title c, createdBy c)) cs)"
  proof -
    from creation_keeps_pairs_distinct [OF that, of uploadImage n1 r1] first
    have "distinct (map (\<lambda>c. (title c, createdBy c)) (cs @ [?c1]))" by simp
    from creation_keeps_pairs_distinct [OF this, of uploadImage n3 r3] third
    show ?thesis by simp
  qed
  from first second third inv show ?thesis by blast
qed

theorem duplicate_title_per_owner_witness:
  "handleCourseCreation cdn ''65f000000000000000000003'' [logic]
      \<lparr>req_admin = Some jane, req_body = form ''Sets'' ''Proofs'' ''25'', req_file = Some cover,
       req_params_id = None\<rparr>
     = (res_status_json 201
          (MessageData ''Course created successfully''
             (CourseDoc \<lparr>course_id = ''65f000000000000000000003'', title = ''Sets'', description = ''Proofs'',
                price = ''25'', imageURL = ''https://cdn/uploads/cover.png'',
                ownerName = ''Jane Doe'', createdBy = ''65e000000000000000000001''\<rparr>)),
        [logic, \<lparr>course_id = ''65f000000000000000000003'', title = ''Sets'', description = ''Proofs'',
                price = ''25'', imageURL = ''https://cdn/uploads/cover.png'',
                ownerName = ''Jane Doe'', createdBy = ''65e000000000000000000001''\<rparr>])
   \<and> handleCourseCreation cdn ''65f000000000000000000004''
        [logic, \<lparr>course_id = ''65f000000000000000000003'', title = ''Sets'', description = ''Proofs'',
                price = ''25'', imageURL = ''https://cdn/uploads/cover.png'',
                ownerName = ''Jane Doe'', createdBy = ''65e000000000000000000001''\<rparr>]
      \<lparr>req_admin = Some jane, req_body = form ''Sets'' ''Again'' ''30'', req_file = Some cover,
       req_params_id = None\<rparr>
     = (res_status_json 400 (ErrorBody (Text ''Course already exists'')),
        [logic, \<lparr>course_id = ''65f000000000000000000003'', title = ''Sets'', description = ''Proofs'',
                price = ''25'', imageURL = ''https://cdn/uploads/cover.png'',
                ownerName = ''Jane Doe'', createdBy = ''65e000000000000000000001''\<rparr>])
   \<and> handleCourseCreation cdn ''65f000000000000000000005''
        [logic, \<lparr>course_id = ''65f000000000000000000003'', title = ''Sets'', description = ''Proofs'',
                price = ''25'', imageURL = ''https://cdn/uploads/cover.png'',
                ownerName = ''Jane Doe'', createdBy = ''65e000000000000000000001''\<rparr>]
      \<lparr>req_admin = Some omar, req_body = form ''Sets'' ''Other'' ''35'', req_file = Some cover,
       req_params_id = None\<rparr>
     = (res_status_json 201
          (MessageData ''Course created successfully''
             (CourseDoc \<lparr>course_id = ''65f000000000000000000005'', title = ''Sets'', description = ''Other'',
                price = ''35'', imageURL = ''https://cdn/uploads/cover.png'',
                ownerName = ''Omar Roe'', createdBy = ''65e000000000000000000002''\<rparr>)),
        [logic, \<lparr>course_id = ''65f000000000000000000003'', title = ''Sets'', description = ''Proofs'',
                price = ''25'', imageURL = ''https://cdn/uploads/cover.png'',
                ownerName = ''Jane Doe'', createdBy = ''65e000000000000000000001''\<rparr>,
         \<lparr>course_id = ''65f000000000000000000005'', title = ''Sets'', description = ''Other'',
                price = ''35'', imageURL = ''https://cdn/uploads/cover.png'',
                ownerName = ''Omar Roe'', createdBy = ''65e000000000000000000002''\<rparr>])"
proof -
  let ?r1 = "\<lparr>req_admin = Some jane, req_body = form ''Sets'' ''Proofs'' ''25'',
      req_file = Some cover, req_params_id = None\<rparr>"
  let ?r2 = "\<lparr>req_admin = Some jane, req_body = form ''Sets'' ''Again'' ''30'',
      req_file = Some cover, req_params_id = None\<rparr>"
  let ?r3 = "\<lparr>req_admin = Some omar, req_body = form ''Sets'' ''Other'' ''35'',
      req_file = Some cover, req_params_id = None\<rparr>"
  have h1: "req_admin ?r1 = Some jane" "req_body ?r1 ''title'' = Str ''Sets''"
    "req_body ?r1 ''description'' = Str ''Proofs''" "req_body ?r1 ''price'' = Str ''25''"
    "''Sets'' \<noteq> []" "''Proofs'' \<noteq> []" "Course_findOne ''Sets'' (admin_id jane) [logic] = None"
    "req_file ?r1 = Some cover" "\<not> falsy (path cover)"
    "cdn (string_of (path cover)) = Resolves (Some (''https://cdn/'' @ string_of (path cover)))"
    "\<not> falsy (Some (''https://cdn/'' @ string_of (path cover)))"
    by (simp_all add: form_def Course_findOne_def logic_def jane_def cover_def falsy_def cdn_def)
  have h2: "req_admin ?r2 = Some jane" "admin_id jane = admin_id jane"
    "req_body ?r2 ''title'' = Str ''Sets''" "req_body ?r2 ''description'' = Str ''Again''"
    "req_body ?r2 ''price'' = Str ''30''" "''Again'' \<noteq> []"
    by (simp_all add: form_def)
  have h3: "req_admin ?r3 = Some omar" "admin_id omar \<noteq> admin_id jane"
    "req_body ?r3 ''title'' = Str ''Sets''" "req_body ?r3 ''description'' = Str ''Other''"
    "req_body ?r3 ''price'' = Str ''35''" "''Other'' \<noteq> []"
    "Course_findOne ''Sets'' (admin_id omar) [logic] = None"
    "req_file ?r3 = Some cover" "\<not> falsy (path cover)"
    "cdn (string_of (path cover)) = Resolves (Some (''https://cdn/'' @ string_of (path cover)))"
    "\<not> falsy (Some (''https://cdn/'' @ string_of (path cover)))"
    by (simp_all add: form_def Course_findOne_def logic_def jane_def omar_def cover_def falsy_def
        cdn_def)
  from duplicate_title_per_owner [where uploadImage = cdn and ?n1.0 = "''65f000000000000000000003''" and ?n2.0 = "''65f000000000000000000004''"
      and ?n3.0 = "''65f000000000000000000005''", OF h1 h2 h3]
  show ?thesis by (simp add: jane_def omar_def cover_def string_of_def)
qed

text \<open>
  C9, as stated, fails: a create call whose price is the non-numeric string ``abc'' is not
  rejected; it answers 201 and the course is stored with that price.
\<close>

theorem create_non_numeric_price_counterexample:
  "handleCourseCreation cdn ''65f000000000000000000003'' [intro]
      \<lparr>req_admin = Some jane, req_body = form ''Sets'' ''Proofs'' ''abc'', req_file = Some cover,
       req_params_id = None\<rparr>
     = (\<lparr>status = 201,
         sent = MessageData ''Course created successfully''
           (CourseDoc \<lparr>course_id = ''65f000000000000000000003'', title = ''Sets'', description = ''Proofs'',
              price = ''abc'', imageURL = ''https://cdn/uploads/cover.png'',
              ownerName = ''Jane Doe'', createdBy = ''65e000000000000000000001''\<rparr>),
         cookie = None\<rparr>,
        [intro, \<lparr>course_id = ''65f000000000000000000003'', title = ''Sets'', description = ''Proofs'',
              price = ''abc'', imageURL = ''https://cdn/uploads/cover.png'',
              ownerName = ''Jane Doe'', createdBy = ''65e000000000000000000001''\<rparr>])"
proof -
  let ?r = "\<lparr>req_admin = Some jane, req_body = form ''Sets'' ''Proofs'' ''abc'',
      req_file = Some cover, req_params_id = None\<rparr>"
  have h: "req_admin ?r = Some jane" "req_body ?r ''title'' = Str ''Sets''"
    "req_body ?r ''description'' = Str ''Proofs''" "req_body ?r ''price'' = Str ''abc''"
    "''Sets'' \<noteq> []" "''Proofs'' \<noteq> []" "Course_findOne ''Sets'' (admin_id jane) [intro] = None"
    "req_file ?r = Some cover" "\<not> falsy (path cover)"
    "cdn (string_of (path cover)) = Resolves (Some (''https://cdn/'' @ string_of (path cover)))"
    "\<not> falsy (Some (''https://cdn/'' @ string_of (path cover)))"
    by (simp_all add: form_def Course_findOne_def intro_def jane_def cover_def falsy_def cdn_def)
  from creation_succeeds [where uploadImage = cdn and n = "''65f000000000000000000003''", OF h]
  show ?thesis
    by (simp add: res_status_json_def jane_def cover_def string_of_def)
qed

text \<open>
  C9, amended. For every create call of an admin the inputs are checked before anything is
  stored: the body passes the schema exactly when title, description and price are all
  strings, and is answered with 400 and the schema's issues otherwise; an empty title or
  description is answered with 400 ``Missing required fields''; in both cases nothing is
  stored. The price string is not checked further: when the remaining steps succeed, the
  course is stored with the price as supplied, whatever string it is.
\<close>

theorem create_validates_strings_only:
  assumes "req_admin req = Some a"
  shows "((\<exists>x. courseSchema_safeParse (req_body req) = Inr x) \<longleftrightarrow>
            (\<exists>t d p. req_body req ''title'' = Str t \<and> req_body req ''description'' = Str d
                     \<and> req_body req ''price'' = Str p))
       \<and> (\<forall>issues. courseSchema_safeParse (req_body req) = Inl issues \<longrightarrow>
            handleCourseCreation uploadImage n cs req
              = (res_status_json 400 (ErrorBody (ZodError issues)), cs))
       \<and> (\<forall>t d p. req_body req ''title'' = Str t \<and> req_body req ''description'' = Str d
                   \<and> req_body req ''price'' = Str p \<and> (t = [] \<or> d = []) \<longrightarrow>
            handleCourseCreation uploadImage n cs req
              = (res_status_json 400 (ErrorBody (Text ''Missing required fields'')), cs))
       \<and> (\<forall>t d p f url.
            req_body req ''title'' = Str t \<and> req_body req ''description'' = Str d
            \<and> req_body req ''price'' = Str p \<and> t \<noteq> [] \<and> d \<noteq> []
            \<and> Course_findOne t (admin_id a) cs = None
            \<and> req_file req = Some f \<and> \<not> falsy (path f)
            \<and> uploadImage (string_of (path f)) = Resolves url \<and> \<not> falsy url \<longrightarrow>
            handleCourseCreation uploadImage n cs req
              = (res_status_json 201
                   (MessageData ''Course created successfully''
                      (CourseDoc \<lparr>course_id = n, title = t, description = d, price = p,
                         imageURL = string_of url,
                         ownerName = firstName a @ '' '' @ lastName a,
                         createdBy = admin_id a\<rparr>)),
                 cs @ [\<lparr>course_id = n, title = t, description = d, price = p,
                         imageURL = string_of url,
                         ownerName = firstName a @ '' '' @ lastName a,
                         createdBy = admin_id a\<rparr>]))"
proof (intro conjI allI impI)
  show "(\<exists>x. courseSchema_safeParse (req_body req) = Inr x) \<longleftrightarrow>
      (\<exists>t d p. req_body req ''title'' = Str t \<and> req_body req ''description'' = Str d
               \<and> req_body req ''price'' = Str p)"
    by (auto simp add: courseSchema_safeParse_def z_string_def Let_def
        split: jsval.splits if_splits)
next
  fix issues
  assume "courseSchema_safeParse (req_body req) = Inl issues"
  then show "handleCourseCreation uploadImage n cs req
      = (res_status_json 400 (ErrorBody (ZodError issues)), cs)"
    by (simp add: handleCourseCreation_def handleCourseCreation_try_def assms)
next
  fix t d p
  assume h: "req_body req ''title'' = Str t \<and> req_body req ''description'' = Str d
      \<and> req_body req ''price'' = Str p \<and> (t = [] \<or> d = [])"
  then have "courseSchema_safeParse (req_body req) = Inr (t, d, p)"
    by (simp add: courseSchema_safeParse_strings)
  with h show "handleCourseCreation uploadImage n cs req
      = (res_status_json 400 (ErrorBody (Text ''Missing required fields'')), cs)"
    by (auto simp add: handleCourseCreation_def handleCourseCreation_try_def assms)
next
  fix t d p f url
  assume "req_body req ''title'' = Str t \<and> req_body req ''description'' = Str d
      \<and> req_body req ''price'' = Str p \<and> t \<noteq> [] \<and> d \<noteq> []
      \<and> Course_findOne t (admin_id a) cs = None
      \<and> req_file req = Some f \<and> \<not> falsy (path f)
      \<and> uploadImage (string_of (path f)) = Resolves url \<and> \<not> falsy url"
  then show "handleCourseCreation uploadImage n cs req
      = (res_status_json 201
           (MessageData ''Course created successfully''
              (CourseDoc \<lparr>course_id = n, title = t, description = d, price = p,
                 imageURL = string_of url,
                 ownerName = firstName a @ '' '' @ lastName a,
                 createdBy = admin_id a\<rparr>)),
         cs @ [\<lparr>course_id = n, title = t, description = d, price = p,
                 imageURL = string_of url,
                 ownerName = firstName a @ '' '' @ lastName a,
                 createdBy = admin_id a\<rparr>])"
    using assms by (intro creation_succeeds [where f = f and url = url and a = a]) simp_all
qed

theorem create_validates_strings_only_witness:
  "handleCourseCreation cdn ''65f000000000000000000003'' [intro]
      \<lparr>req_admin = Some jane, req_body = title_only ''Sets'',
       req_file = Some cover, req_params_id = None\<rparr>
     = (res_status_json 400
          (ErrorBody (ZodError [invalid_type ''description'', invalid_type ''price''])), [intro])
   \<and> handleCourseCreation cdn ''65f000000000000000000003'' [intro]
      \<lparr>req_admin = Some jane, req_body = form [] ''Proofs'' ''25'',
       req_file = Some cover, req_params_id = None\<rparr>
     = (res_status_json 400 (ErrorBody (Text ''Missing required fields'')), [intro])
   \<and> handleCourseCreation cdn ''65f000000000000000000003'' [intro]
      \<lparr>req_admin = Some jane, req_body = form ''Sets'' ''Proofs'' [],
       req_file = Some cover, req_params_id = None\<rparr>
     = (res_status_json 201
          (MessageData ''Course created successfully''
             (CourseDoc \<lparr>course_id = ''65f000000000000000000003'', title = ''Sets'', description = ''Proofs'',
                price = [], imageURL = ''https://cdn/uploads/cover.png'',
                ownerName = ''Jane Doe'', createdBy = ''65e000000000000000000001''\<rparr>)),
        [intro, \<lparr>course_id = ''65f000000000000000000003'', title = ''Sets'', description = ''Proofs'',
                price = [], imageURL = ''https://cdn/uploads/cover.png'',
                ownerName = ''Jane Doe'', createdBy = ''65e000000000000000000001''\<rparr>])"
proof -
  let ?r3 = "\<lparr>req_admin = Some jane, req_body = form ''Sets'' ''Proofs'' [],
      req_file = Some cover, req_params_id = None\<rparr>"
  let ?r1 = "\<lparr>req_admin = Some jane,
      req_body = title_only ''Sets'',
      req_file = Some cover, req_params_id = None\<rparr>"
  let ?r2 = "\<lparr>req_admin = Some jane, req_body = form [] ''Proofs'' ''25'',
      req_file = Some cover, req_params_id = None\<rparr>"
  have p1: "courseSchema_safeParse (req_body ?r1)
      = Inl [invalid_type ''description'', invalid_type ''price'']"
    by (simp add: courseSchema_safeParse_def z_string_def title_only_def)
  have p2: "req_body ?r2 ''title'' = Str [] \<and> req_body ?r2 ''description'' = Str ''Proofs''
      \<and> req_body ?r2 ''price'' = Str ''25'' \<and> ([] = ([]::string) \<or> ''Proofs'' = [])"
    by (simp add: form_def)
  have a1: "req_admin ?r1 = Some jane" and a2: "req_admin ?r2 = Some jane" by simp_all
  from create_validates_strings_only [OF a1, where uploadImage = cdn and n = "''65f000000000000000000003''" and cs = "[intro]"]
  have "\<forall>issues. courseSchema_safeParse (req_body ?r1) = Inl issues \<longrightarrow>
      handleCourseCreation cdn ''65f000000000000000000003'' [intro] ?r1
        = (res_status_json 400 (ErrorBody (ZodError issues)), [intro])"
    by blast
  with p1 have one: "handleCourseCreation cdn ''65f000000000000000000003'' [intro] ?r1
      = (res_status_json 400
          (ErrorBody (ZodError [invalid_type ''description'', invalid_type ''price''])), [intro])"
    by blast
  from create_validates_strings_only [OF a2, where uploadImage = cdn and n = "''65f000000000000000000003''" and cs = "[intro]"]
  have "\<forall>t d p. req_body ?r2 ''title'' = Str t \<and> req_body ?r2 ''description'' = Str d
      \<and> req_body ?r2 ''price'' = Str p \<and> (t = [] \<or> d = []) \<longrightarrow>
      handleCourseCreation cdn ''65f000000000000000000003'' [intro] ?r2
        = (res_status_json 400 (ErrorBody (Text ''Missing required fields'')), [intro])"
    by blast
  with p2 have two: "handleCourseCreation cdn ''65f000000000000000000003'' [intro] ?r2
      = (res_status_json 400 (ErrorBody (Text ''Missing required fields'')), [intro])"
    by blast
  have a3: "req_admin ?r3 = Some jane" by simp
  have p3: "req_body ?r3 ''title'' = Str ''Sets'' \<and> req_body ?r3 ''description'' = Str ''Proofs''
      \<and> req_body ?r3 ''price'' = Str [] \<and> ''Sets'' \<noteq> [] \<and> ''Proofs'' \<noteq> []
      \<and> Course_findOne ''Sets'' (admin_id jane) [intro] = None
      \<and> req_file ?r3 = Some cover \<and> \<not> falsy (path cover)
      \<and> cdn (string_of (path cover)) = Resolves (Some ''https://cdn/uploads/cover.png'')
      \<and> \<not> falsy (Some ''https://cdn/uploads/cover.png'')"
    by (simp add: form_def Course_findOne_def intro_def jane_def cover_def falsy_def cdn_def
        string_of_def)
  from create_validates_strings_only [OF a3, where uploadImage = cdn and n = "''65f000000000000000000003''" and cs = "[intro]"]
  have "\<forall>t d p f url.
      req_body ?r3 ''title'' = Str t \<and> req_body ?r3 ''description'' = Str d
      \<and> req_body ?r3 ''price'' = Str p \<and> t \<noteq> [] \<and> d \<noteq> []
      \<and> Course_findOne t (admin_id jane) [intro] = None
      \<and> req_file ?r3 = Some f \<and> \<not> falsy (path f)
      \<and> cdn (string_of (path f)) = Resolves url \<and> \<not> falsy url \<longrightarrow>
      handleCourseCreation cdn ''65f000000000000000000003'' [intro] ?r3
        = (res_status_json 201
             (MessageData ''Course created successfully''
                (CourseDoc \<lparr>course_id = ''65f000000000000000000003'', title = t, description = d, price = p,
                   imageURL = string_of url,
                   ownerName = firstName jane @ '' '' @ lastName jane,
                   createdBy = admin_id jane\<rparr>)),
           [intro] @ [\<lparr>course_id = ''65f000000000000000000003'', title = t, description = d, price = p,
                   imageURL = string_of url,
                   ownerName = firstName jane @ '' '' @ lastName jane,
                   createdBy = admin_id jane\<rparr>])"
    by blast
  with p3 have "handleCourseCreation cdn ''65f000000000000000000003'' [intro] ?r3
        = (res_status_json 201
             (MessageData ''Course created successfully''
                (CourseDoc \<lparr>course_id = ''65f000000000000000000003'', title = ''Sets'', description = ''Proofs'',
                   price = [], imageURL = string_of (Some ''https://cdn/uploads/cover.png''),
                   ownerName = firstName jane @ '' '' @ lastName jane,
                   createdBy = admin_id jane\<rparr>)),
           [intro] @ [\<lparr>course_id = ''65f000000000000000000003'', title = ''Sets'', description = ''Proofs'',
                   price = [], imageURL = string_of (Some ''https://cdn/uploads/cover.png''),
                   ownerName = firstName jane @ '' '' @ lastName jane,
                   createdBy = admin_id jane\<rparr>])"
    by blast
  then have three: "handleCourseCreation cdn ''65f000000000000000000003'' [intro] ?r3
     = (res_status_json 201
          (MessageData ''Course created successfully''
             (CourseDoc \<lparr>course_id = ''65f000000000000000000003'', title = ''Sets'', description = ''Proofs'',
                price = [], imageURL = ''https://cdn/uploads/cover.png'',
                ownerName = ''Jane Doe'', createdBy = ''65e000000000000000000001''\<rparr>)),
        [intro, \<lparr>course_id = ''65f000000000000000000003'', title = ''Sets'', description = ''Proofs'',
                price = [], imageURL = ''https://cdn/uploads/cover.png'',
                ownerName = ''Jane Doe'', createdBy = ''65e000000000000000000001''\<rparr>])"
    by (simp add: jane_def string_of_def)
  from one two three show ?thesis by blast
qed

section \<open>Registration and login\<close>

text \<open>
  C7. A registration with a well-formed body whose email is not stored yet answers 201
  with no error and stores the new admin. Any later registration with that email answers
  400 and leaves the stored admins, the first record among them, exactly as they were; when
  its body is well-formed the error is ``Admin already exists''.
\<close>

theorem register_same_email_twice:
  assumes "req_body r1 ''email'' = Str e" and "is_email e" and "e \<noteq> []"
    and "req_body r1 ''password'' = Str pw" and "6 \<le> length pw"
    and "req_body r1 ''firstName'' = Str fn" and "fn \<noteq> []"
    and "req_body r1 ''lastName'' = Str ln" and "ln \<noteq> []"
    and "Admin_findOne e as = None" and "\<not> falsy (hashPass pw)"
    and "req_body r2 ''email'' = Str e"
  shows "handleAdminRegister is_email hashPass n1 as r1
           = (res_status_json 201
                (MessageUser ''Admin created successfully''
                   \<lparr>admin_id = n1, email = e, firstName = fn, lastName = ln,
                    password = string_of (hashPass pw)\<rparr>),
              as @ [\<lparr>admin_id = n1, email = e, firstName = fn, lastName = ln,
                      password = string_of (hashPass pw)\<rparr>])
       \<and> status (fst (handleAdminRegister is_email hashPass n2
            (as @ [\<lparr>admin_id = n1, email = e, firstName = fn, lastName = ln,
                      password = string_of (hashPass pw)\<rparr>]) r2)) = 400
       \<and> snd (handleAdminRegister is_email hashPass n2
            (as @ [\<lparr>admin_id = n1, email = e, firstName = fn, lastName = ln,
                      password = string_of (hashPass pw)\<rparr>]) r2)
           = as @ [\<lparr>admin_id = n1, email = e, firstName = fn, lastName = ln,
                     password = string_of (hashPass pw)\<rparr>]
       \<and> (\<forall>pw2 fn2 ln2.
             userSchema_safeParse is_email (req_body r2) = Inr (e, pw2, fn2, ln2)
             \<and> fn2 \<noteq> [] \<and> ln2 \<noteq> [] \<longrightarrow>
             handleAdminRegister is_email hashPass n2
               (as @ [\<lparr>admin_id = n1, email = e, firstName = fn, lastName = ln,
                        password = string_of (hashPass pw)\<rparr>]) r2
               = (res_status_json 400 (ErrorBody (Text ''Admin already exists'')),
                  as @ [\<lparr>admin_id = n1, email = e, firstName = fn, lastName = ln,
                          password = string_of (hashPass pw)\<rparr>]))"
proof -
  let ?user = "\<lparr>admin_id = n1, email = e, firstName = fn, lastName = ln,
      password = string_of (hashPass pw)\<rparr>"
  have parse1: "userSchema_safeParse is_email (req_body r1) = Inr (e, pw, fn, ln)"
    using assms(1,2,4,5,6,8) by (rule userSchema_safeParse_strings)
  have pw: "pw \<noteq> []" using assms(5) by auto
  have first: "handleAdminRegister is_email hashPass n1 as r1
      = (res_status_json 201 (MessageUser ''Admin created successfully'' ?user), as @ [?user])"
    by (simp add: handleAdminRegister_def parse1 assms(3,7,9,10,11) pw Admin_create_def)
  have found: "Admin_findOne e (as @ [?user]) = Some ?user"
    using assms(10) by (simp add: Admin_findOne_append_new)
  have conflict: "handleAdminRegister is_email hashPass n2 (as @ [?user]) r2
      = (res_status_json 400 (ErrorBody (Text ''Admin already exists'')), as @ [?user])"
    if "userSchema_safeParse is_email (req_body r2) = Inr (e, pw2, fn2, ln2) \<and> fn2 \<noteq> [] \<and> ln2 \<noteq> []"
    for pw2 fn2 ln2
  proof -
    from that userSchema_safeParse_Inr [of is_email "req_body r2" e pw2 fn2 ln2]
    have "pw2 \<noteq> []" by auto
    with that show ?thesis
      by (simp add: handleAdminRegister_def assms(3) found)
  qed
  have second: "status (fst (handleAdminRegister is_email hashPass n2 (as @ [?user]) r2)) = 400
      \<and> snd (handleAdminRegister is_email hashPass n2 (as @ [?user]) r2) = as @ [?user]"
  proof (cases "userSchema_safeParse is_email (req_body r2)")
    case (Inl issues)
    then show ?thesis by (simp add: handleAdminRegister_def res_status_json_def)
  next
    case (Inr x)
    obtain e2 pw2 fn2 ln2 where x: "x = (e2, pw2, fn2, ln2)" by (cases x) auto
    from Inr x userSchema_safeParse_Inr [of is_email "req_body r2" e2 pw2 fn2 ln2] assms(12)
    have "e2 = e" by simp
    with Inr x found show ?thesis
      by (simp add: handleAdminRegister_def res_status_json_def)
  qed
  from first second conflict show ?thesis by blast
qed

theorem register_same_email_twice_witness:
  "handleAdminRegister contains_at prefix_hash ''65e000000000000000000001'' []
      \<lparr>req_admin = None, req_body = credentials ''a@x.com'' ''secret1'' ''Jane'' ''Doe'',
       req_file = None, req_params_id = None\<rparr>
     = (res_status_json 201 (MessageUser ''Admin created successfully'' jane), [jane])
   \<and> handleAdminRegister contains_at prefix_hash ''65e000000000000000000002'' [jane]
      \<lparr>req_admin = None, req_body = credentials ''a@x.com'' ''secret2'' ''June'' ''Doe'',
       req_file = None, req_params_id = None\<rparr>
     = (res_status_json 400 (ErrorBody (Text ''Admin already exists'')), [jane])"
proof -
  let ?r1 = "\<lparr>req_admin = None, req_body = credentials ''a@x.com'' ''secret1'' ''Jane'' ''Doe'',
      req_file = None, req_params_id = None\<rparr>"
  let ?r2 = "\<lparr>req_admin = None, req_body = credentials ''a@x.com'' ''secret2'' ''June'' ''Doe'',
      req_file = None, req_params_id = None\<rparr>"
  have h: "req_body ?r1 ''email'' = Str ''a@x.com''" "contains_at ''a@x.com''" "''a@x.com'' \<noteq> []"
    "req_body ?r1 ''password'' = Str ''secret1''" "6 \<le> length ''secret1''"
    "req_body ?r1 ''firstName'' = Str ''Jane''" "''Jane'' \<noteq> []"
    "req_body ?r1 ''lastName'' = Str ''Doe''" "''Doe'' \<noteq> []"
    "Admin_findOne ''a@x.com'' [] = None" "\<not> falsy (prefix_hash ''secret1'')"
    "req_body ?r2 ''email'' = Str ''a@x.com''"
    by (simp_all add: credentials_def contains_at_def Admin_findOne_def prefix_hash_def falsy_def)
  have p2: "userSchema_safeParse contains_at (req_body ?r2)
      = Inr (''a@x.com'', ''secret2'', ''June'', ''Doe'') \<and> ''June'' \<noteq> [] \<and> ''Doe'' \<noteq> []"
    by (simp add: userSchema_safeParse_def z_string_email_def z_string_min_def z_string_def
        str_of_def credentials_def contains_at_def)
  from register_same_email_twice [where is_email = contains_at and hashPass = prefix_hash
      and ?n1.0 = "''65e000000000000000000001''" and ?n2.0 = "''65e000000000000000000002''", OF h] p2
  show ?thesis by (simp add: jane_def prefix_hash_def string_of_def)
qed

text \<open>
  C10. For every login that is answered without an error, the answer is the 200 success
  whose \<^verbatim>\<open>data\<close> is a stored admin document as a whole: the document that the lookup by the
  email of the request resolved to, whose \<^verbatim>\<open>password\<close> field is the stored hash that the
  supplied password was verified against.
\<close>

theorem login_returns_stored_admin:
  assumes "\<forall>error. sent (handleAdminLogin is_email rejects verifyPass signToken adminJwtSecret as req)
             \<noteq> ErrorBody error"
  shows "\<exists>a \<in> set as. \<exists>pw.
           sent (handleAdminLogin is_email rejects verifyPass signToken adminJwtSecret as req)
             = MessageData ''Admin logged in successfully'' (AdminDoc a)
         \<and> status (handleAdminLogin is_email rejects verifyPass signToken adminJwtSecret as req) = 200
         \<and> req_body req ''email'' = Str (email a)
         \<and> Admin_findOne (email a) as = Some a
         \<and> req_body req ''password'' = Str pw
         \<and> verifyPass pw (password a) = Resolves True"
proof (cases "loginSchema_safeParse is_email (req_body req)")
  case (Inl issues)
  with assms show ?thesis
    by (simp add: handleAdminLogin_def handleAdminLogin_try_def res_status_json_def)
next
  case (Inr x)
  obtain e pw where x: "x = (e, pw)" by (cases x)
  from Inr x have body: "req_body req ''email'' = Str e \<and> req_body req ''password'' = Str pw"
    by (simp add: loginSchema_safeParse_Inr)
  from assms Inr x obtain a where found: "Admin_findOne e as = Some a"
    by (cases "Admin_findOne e as")
      (auto simp add: handleAdminLogin_def handleAdminLogin_try_def awaited_query_def
        res_status_json_def res_json_def split: if_splits option.splits)
  then have a: "a \<in> set as \<and> email a = e" by (rule Admin_findOne_Some)
  from assms Inr x found have "verifyPass pw (password a) = Resolves True
      \<and> sent (handleAdminLogin is_email rejects verifyPass signToken adminJwtSecret as req)
          = MessageData ''Admin logged in successfully'' (AdminDoc a)
      \<and> status (handleAdminLogin is_email rejects verifyPass signToken adminJwtSecret as req) = 200"
    by (auto simp add: handleAdminLogin_def handleAdminLogin_try_def awaited_query_def
        res_status_json_def res_json_def split: if_splits option.splits awaited.splits)
  with a body found show ?thesis by blast
qed

theorem login_returns_stored_admin_witness:
  "(\<forall>error. sent (handleAdminLogin contains_at store_up prefix_verify plain_token None [omar, jane]
      \<lparr>req_admin = None, req_body = credentials ''a@x.com'' ''secret1'' [] [],
       req_file = None, req_params_id = None\<rparr>) \<noteq> ErrorBody error)
   \<and> sent (handleAdminLogin contains_at store_up prefix_verify plain_token None [omar, jane]
      \<lparr>req_admin = None, req_body = credentials ''a@x.com'' ''secret1'' [] [],
       req_file = None, req_params_id = None\<rparr>)
     = MessageData ''Admin logged in successfully''
         (AdminDoc \<lparr>admin_id = ''65e000000000000000000001'', email = ''a@x.com'',
            firstName = ''Jane'', lastName = ''Doe'', password = ''hash-of-secret1''\<rparr>)"
proof -
  let ?r = "\<lparr>req_admin = None, req_body = credentials ''a@x.com'' ''secret1'' [] [],
      req_file = None, req_params_id = None\<rparr>"
  have ok: "\<forall>error. sent (handleAdminLogin contains_at store_up prefix_verify plain_token None
      [omar, jane] ?r) \<noteq> ErrorBody error"
    by (simp add: handleAdminLogin_def handleAdminLogin_try_def awaited_query_def store_up_def
        loginSchema_safeParse_def z_string_email_def
        z_string_min_def str_of_def credentials_def contains_at_def Admin_findOne_def
        omar_def jane_def prefix_verify_def plain_token_def falsy_def)
  from login_returns_stored_admin [OF ok] obtain a where
    a: "a \<in> set [omar, jane]"
    and s: "sent (handleAdminLogin contains_at store_up prefix_verify plain_token None [omar, jane] ?r)
        = MessageData ''Admin logged in successfully'' (AdminDoc a)"
    and e: "req_body ?r ''email'' = Str (email a)"
    by blast
  from e have "email a = ''a@x.com''" by (simp add: credentials_def)
  with a have "a = jane" by (auto simp add: omar_def)
  with ok s show ?thesis by (simp add: jane_def)
qed

end
